theory Spec2Isabelle
  imports Complex_Main
begin

section \<open>JavaScript values used by server.js\<close>

subsection \<open>Strings\<close>

text \<open>
  A JavaScript string is a sequence of UTF-16 code units. The Russian literals of
  server.js are written out as their code units; \<open>ascii\<close> embeds a literal
  that only has Basic Latin characters.
\<close>

type_synonym jsstring = "nat list"

definition ascii :: "string \<Rightarrow> jsstring" where
  "ascii s = map of_char s"

text \<open>\<open>if (s)\<close> on a string-or-null value: null and the empty string are falsy.\<close>

definition truthy :: "jsstring option \<Rightarrow> bool" where
  "truthy v = (case v of None \<Rightarrow> False | Some s \<Rightarrow> s \<noteq> [])"

fun startsWith :: "jsstring \<Rightarrow> jsstring \<Rightarrow> bool" where
  "startsWith s [] = True"
| "startsWith [] (p # ps) = False"
| "startsWith (c # cs) (p # ps) = (c = p \<and> startsWith cs ps)"

text \<open>\<open>s.includes(p)\<close>: \<open>p\<close> occurs in \<open>s\<close> at some position.\<close>

fun includes_str :: "jsstring \<Rightarrow> jsstring \<Rightarrow> bool" where
  "includes_str [] p = (p = [])"
| "includes_str (c # cs) p = (startsWith (c # cs) p \<or> includes_str cs p)"

text \<open>
  \<open>String.prototype.toLowerCase\<close>, on the Basic Latin capitals and on the Cyrillic
  capitals U+0400 to U+042F. Code units outside these two ranges are left as they are
  (the rest of the Unicode case table is not part of this model).
\<close>

definition lower_unit :: "nat \<Rightarrow> nat" where
  "lower_unit c =
     (if 0x41 \<le> c \<and> c \<le> 0x5A then c + 0x20
      else if 0x410 \<le> c \<and> c \<le> 0x42F then c + 0x20
      else if 0x400 \<le> c \<and> c \<le> 0x40F then c + 0x50
      else c)"

definition toLowerCase :: "jsstring \<Rightarrow> jsstring" where
  "toLowerCase s = map lower_unit s"

text \<open>The white space and line terminators that \<open>String.prototype.trim\<close> strips.\<close>

definition lineTerminator :: "nat \<Rightarrow> bool" where
  "lineTerminator c = (c = 0x0A \<or> c = 0x0D \<or> c = 0x2028 \<or> c = 0x2029)"

definition whiteSpace :: "nat \<Rightarrow> bool" where
  "whiteSpace c =
     (c = 0x09 \<or> c = 0x0B \<or> c = 0x0C \<or> c = 0x20 \<or> c = 0xA0 \<or> c = 0x1680
      \<or> (0x2000 \<le> c \<and> c \<le> 0x200A) \<or> c = 0x202F \<or> c = 0x205F \<or> c = 0x3000
      \<or> c = 0xFEFF \<or> lineTerminator c)"

definition trim :: "jsstring \<Rightarrow> jsstring" where
  "trim s = rev (dropWhile whiteSpace (rev (dropWhile whiteSpace s)))"

subsection \<open>Numbers\<close>

text \<open>
  A JavaScript number is an IEEE 754 binary64 value: a finite value, held here as the
  real it denotes, one of the two infinities, or NaN. The two zeros are one value: the
  program never divides, so the sign of a zero plays no part. Every comparison with NaN
  is false, and comparisons are exact.
\<close>

datatype number = Num real | Infinity | NegInfinity | NaN

text \<open>
  Rounding to the nearest value of a binary format with \<open>p\<close> significant bits and
  exponents from \<open>emin\<close> to \<open>emax\<close>, ties to the even significand. The quantum is
  the spacing of the format at \<open>x\<close> (that of the subnormal values below
  \<open>2 ^ emin\<close>); a result whose magnitude reaches \<open>2 ^ (emax + 1)\<close> overflows to an
  infinity.
\<close>

definition roundHalfEven :: "real \<Rightarrow> int" where
  "roundHalfEven x =
     (if x - of_int \<lfloor>x\<rfloor> < 1 / 2 then \<lfloor>x\<rfloor>
      else if 1 / 2 < x - of_int \<lfloor>x\<rfloor> then \<lfloor>x\<rfloor> + 1
      else if even \<lfloor>x\<rfloor> then \<lfloor>x\<rfloor> else \<lfloor>x\<rfloor> + 1)"

definition quantum :: "nat \<Rightarrow> int \<Rightarrow> real \<Rightarrow> real" where
  "quantum p emin x = 2 powr of_int (max \<lfloor>log 2 \<bar>x\<bar>\<rfloor> emin - (int p - 1))"

definition ieee_round :: "nat \<Rightarrow> int \<Rightarrow> int \<Rightarrow> real \<Rightarrow> number" where
  "ieee_round p emin emax x =
     (if x = 0 then Num 0
      else if 2 powr of_int (emax + 1)
                \<le> \<bar>of_int (roundHalfEven (x / quantum p emin x)) * quantum p emin x\<bar>
           then (if 0 < x then Infinity else NegInfinity)
      else Num (of_int (roundHalfEven (x / quantum p emin x)) * quantum p emin x))"

text \<open>The result of an arithmetic operation whose exact value is \<open>x\<close> (binary64).\<close>

definition toDouble :: "real \<Rightarrow> number" where
  "toDouble = ieee_round 53 (- 1022) 1023"

text \<open>The value a \<open>Float32Array\<close> stores for \<open>x\<close> (binary32), read back as a number.\<close>

definition fround :: "real \<Rightarrow> number" where
  "fround = ieee_round 24 (- 126) 127"

fun nneg :: "number \<Rightarrow> number" where
  "nneg (Num a) = Num (- a)"
| "nneg Infinity = NegInfinity"
| "nneg NegInfinity = Infinity"
| "nneg NaN = NaN"

fun nadd :: "number \<Rightarrow> number \<Rightarrow> number" where
  "nadd NaN y = NaN"
| "nadd x NaN = NaN"
| "nadd (Num a) (Num b) = toDouble (a + b)"
| "nadd (Num a) y = y"
| "nadd x (Num b) = x"
| "nadd Infinity Infinity = Infinity"
| "nadd NegInfinity NegInfinity = NegInfinity"
| "nadd Infinity NegInfinity = NaN"
| "nadd NegInfinity Infinity = NaN"

definition nsub :: "number \<Rightarrow> number \<Rightarrow> number" where
  "nsub x y = nadd x (nneg y)"

fun nsign :: "number \<Rightarrow> int" where
  "nsign (Num a) = (if a = 0 then 0 else if 0 < a then 1 else -1)"
| "nsign Infinity = 1"
| "nsign NegInfinity = -1"
| "nsign NaN = 0"

fun nmul :: "number \<Rightarrow> number \<Rightarrow> number" where
  "nmul NaN y = NaN"
| "nmul x NaN = NaN"
| "nmul (Num a) (Num b) = toDouble (a * b)"
| "nmul x y =
     (if nsign x * nsign y = 0 then NaN
      else if nsign x * nsign y = 1 then Infinity else NegInfinity)"

text \<open>\<open>Math.sqrt\<close>, correctly rounded, as the engines compute it.\<close>

fun nsqrt :: "number \<Rightarrow> number" where
  "nsqrt (Num a) = (if a < 0 then NaN else toDouble (sqrt a))"
| "nsqrt Infinity = Infinity"
| "nsqrt NegInfinity = NaN"
| "nsqrt NaN = NaN"

text \<open>The comparison \<open>x < y\<close>.\<close>

fun nlt :: "number \<Rightarrow> number \<Rightarrow> bool" where
  "nlt NaN y = False"
| "nlt x NaN = False"
| "nlt (Num a) (Num b) = (a < b)"
| "nlt (Num a) Infinity = True"
| "nlt (Num a) NegInfinity = False"
| "nlt Infinity y = False"
| "nlt NegInfinity NegInfinity = False"
| "nlt NegInfinity y = True"

fun isFinite :: "number \<Rightarrow> bool" where
  "isFinite (Num a) = True"
| "isFinite x = False"

text \<open>The literal \<open>0.6\<close> of line 140 is the double nearest to six tenths.\<close>

definition threshold :: number where
  "threshold = toDouble (6 / 10)"

text \<open>
  \<open>Float32Array.from(descriptor)\<close> stores every element rounded to binary32. \<open>ta[i]\<close>
  on a typed array, as an operand of arithmetic: an index past the end reads
  \<open>undefined\<close>, which arithmetic converts to NaN.
\<close>

definition Float32Array_from :: "real list \<Rightarrow> number list" where
  "Float32Array_from xs = map fround xs"

definition elem :: "number list \<Rightarrow> nat \<Rightarrow> number" where
  "elem ta i = (if i < length ta then ta ! i else NaN)"

section \<open>The memory document\<close>

text \<open>
  A descriptor is an array of numbers as JSON delivers them: finite doubles, each held as
  the real it denotes.
\<close>

record face =
  name :: jsstring
  descriptor :: "real list"

datatype author = User | Assistant | System

record conversationEntry =
  time :: nat
  sender :: author
  content :: jsstring

record emotionEntry =
  etime :: nat
  emotion :: jsstring

record smartHome =
  light :: bool

type_synonym frame = "nat list"

record memory =
  faces :: "face list"
  conversationLog :: "conversationEntry list"
  emotionHistory :: "emotionEntry list"
  state :: smartHome
  lastEmotion :: "jsstring option"
  lastFaceDescriptor :: "real list option"
  lastLidarFrame :: "frame option"

text \<open>The literal of lines 23 to 30 (it has no \<open>lastLidarFrame\<close> property).\<close>

definition initialMemory :: memory where
  "initialMemory =
     \<lparr>faces = [], conversationLog = [], emotionHistory = [],
      state = \<lparr>light = False\<rparr>, lastEmotion = None, lastFaceDescriptor = None,
      lastLidarFrame = None\<rparr>"

section \<open>The server and what it sends out\<close>

text \<open>
  What a handler does beyond changing \<open>memory\<close>, in the order it does it:
  \<open>socket.emit\<close> to the connection of the event, \<open>io.emit\<close> to every connection,
  \<open>socket.broadcast.emit\<close> to every other connection, and \<open>saveMemory()\<close>, which
  writes the document as it is at that moment. Console output is left out.
\<close>

datatype effect =
    Tts jsstring
  | TranscriptEcho jsstring
  | LightState bool
  | LidarUpdate frame
  | SaveMemory memory

fun isSave :: "effect \<Rightarrow> bool" where
  "isSave (SaveMemory m) = True"
| "isSave e = False"

fun isTts :: "effect \<Rightarrow> bool" where
  "isTts (Tts s) = True"
| "isTts e = False"

text \<open>
  The process: the memory document, the effects so far, and the wall clock, given as the
  sequence of values that successive calls of \<open>Date.now()\<close> return.
\<close>

record server =
  mem :: memory
  effects :: "effect list"
  clock :: "nat \<Rightarrow> nat"
  ticks :: nat

definition Date_now :: "server \<Rightarrow> nat \<times> server" where
  "Date_now s = (clock s (ticks s), s\<lparr>ticks := Suc (ticks s)\<rparr>)"

definition emit :: "effect \<Rightarrow> server \<Rightarrow> server" where
  "emit e s = s\<lparr>effects := effects s @ [e]\<rparr>"

definition saveMemory :: "server \<Rightarrow> server" where
  "saveMemory s = emit (SaveMemory (mem s)) s"

text \<open>\<open>memory.conversationLog.push({ time: Date.now(), from, text })\<close>\<close>

definition logPush :: "author \<Rightarrow> jsstring \<Rightarrow> server \<Rightarrow> server" where
  "logPush who txt s =
     (case Date_now s of (t, s') \<Rightarrow>
        s'\<lparr>mem := (mem s')\<lparr>conversationLog :=
              conversationLog (mem s') @ [\<lparr>time = t, sender = who, content = txt\<rparr>]\<rparr>\<rparr>)"

text \<open>Lines 221 to 230.\<close>

definition speakText :: "jsstring \<Rightarrow> server \<Rightarrow> server" where
  "speakText txt s = logPush Assistant txt (emit (Tts txt) s)"

section \<open>The face-data handler\<close>

text \<open>Lines 117 to 122: the emotion is recorded when it differs from the last one.\<close>

definition observe :: "jsstring option \<Rightarrow> server \<Rightarrow> server" where
  "observe emo s =
     (if truthy emo then
        (if emo \<noteq> lastEmotion (mem s) then
           (case Date_now (s\<lparr>mem := (mem s)\<lparr>lastEmotion := emo\<rparr>\<rparr>) of (t, s') \<Rightarrow>
              s'\<lparr>mem := (mem s')\<lparr>emotionHistory :=
                    emotionHistory (mem s') @ [\<lparr>etime = t, emotion = the emo\<rparr>]\<rparr>\<rparr>)
         else s)
      else s)"

text \<open>
  Lines 134 to 139: the loop runs over the indices of the known descriptor and reads the
  query at the same index, whatever the length of the query is.
\<close>

definition sq_step :: "number list \<Rightarrow> number list \<Rightarrow> nat \<Rightarrow> number \<Rightarrow> number" where
  "sq_step knownDesc desc i acc =
     nadd acc (nmul (nsub (elem knownDesc i) (elem desc i))
                    (nsub (elem knownDesc i) (elem desc i)))"

definition sumSq :: "number list \<Rightarrow> number list \<Rightarrow> number" where
  "sumSq knownDesc desc = fold (sq_step knownDesc desc) [0..<length knownDesc] (Num 0)"

definition distance :: "number list \<Rightarrow> number list \<Rightarrow> number" where
  "distance knownDesc desc = nsqrt (sumSq knownDesc desc)"

text \<open>
  Lines 133 to 143, one round of the outer loop on the pair
  \<open>(bestDistance, recognizedName)\<close>; \<open>desc\<close> is the typed array of the query.
\<close>

definition consider_person :: "number list \<Rightarrow> face \<Rightarrow> number \<times> jsstring option \<Rightarrow> number \<times> jsstring option" where
  "consider_person desc person bn =
     (if nlt (distance (Float32Array_from (descriptor person)) desc) threshold
         \<and> nlt (distance (Float32Array_from (descriptor person)) desc) (fst bn)
      then (distance (Float32Array_from (descriptor person)) desc, Some (name person))
      else bn)"

text \<open>Lines 128 to 145: the value of \<open>recognizedName\<close> after the loop.\<close>

definition recognize :: "real list option \<Rightarrow> face list \<Rightarrow> jsstring option" where
  "recognize desc_opt known =
     (case desc_opt of
        None \<Rightarrow> None
      | Some d \<Rightarrow>
          if length known > 0
          then snd (fold (consider_person (Float32Array_from d)) known (Infinity, None))
          else None)"

text \<open>The greeting of lines 149 to 151; the Russian literals as code units.\<close>

definition greeting_pre :: jsstring where
  "greeting_pre = [0x41F, 0x440, 0x438, 0x432, 0x435, 0x442, 0x2C, 0x20]"

definition greeting_post :: jsstring where
  "greeting_post =
     [0x21, 0x20, 0x420, 0x430, 0x434, 0x20, 0x432, 0x438, 0x434, 0x435, 0x442, 0x44C, 0x20,
      0x442, 0x432, 0x43E, 0x44E, 0x20, 0x443, 0x43B, 0x44B, 0x431, 0x43A, 0x443, 0x2E]"

definition greeting_generic :: jsstring where
  "greeting_generic =
     [0x41F, 0x440, 0x438, 0x432, 0x435, 0x442, 0x21, 0x20, 0x420, 0x430, 0x434, 0x20,
      0x432, 0x438, 0x434, 0x435, 0x442, 0x44C, 0x20, 0x442, 0x432, 0x43E, 0x44E, 0x20,
      0x443, 0x43B, 0x44B, 0x431, 0x43A, 0x443, 0x2E]"

text \<open>Lines 115 to 154.\<close>

definition face_data :: "real list option \<Rightarrow> jsstring option \<Rightarrow> server \<Rightarrow> server" where
  "face_data desc_opt emo s =
     (let s1 = observe emo s;
          s2 = (case desc_opt of
                  None \<Rightarrow> s1
                | Some d \<Rightarrow> s1\<lparr>mem := (mem s1)\<lparr>lastFaceDescriptor := desc_opt\<rparr>\<rparr>);
          recognizedName = recognize desc_opt (faces (mem s2))
      in if emo = Some (ascii ''happy'')
         then speakText (if truthy recognizedName
                         then greeting_pre @ the recognizedName @ greeting_post
                         else greeting_generic) s2
         else s2)"

section \<open>The smart-home and LiDAR handlers\<close>

text \<open>Lines 157 to 164.\<close>

definition smart_home :: "jsstring \<Rightarrow> jsstring \<Rightarrow> server \<Rightarrow> server" where
  "smart_home device action s =
     (if device = ascii ''light''
      then (let s1 = s\<lparr>mem := (mem s)\<lparr>state := (state (mem s))\<lparr>light := (action = ascii ''on'')\<rparr>\<rparr>\<rparr>
            in saveMemory (emit (LightState (light (state (mem s1)))) s1))
      else s)"

text \<open>Lines 167 to 170.\<close>

definition lidar_data :: "frame \<Rightarrow> server \<Rightarrow> server" where
  "lidar_data fr s = emit (LidarUpdate fr) (s\<lparr>mem := (mem s)\<lparr>lastLidarFrame := Some fr\<rparr>\<rparr>)"

section \<open>The voice-command handler\<close>

definition phrase_light_on :: jsstring where
  "phrase_light_on = [0x432, 0x43A, 0x43B, 0x44E, 0x447, 0x438, 0x20, 0x441, 0x432, 0x435, 0x442]"

definition reply_light_on :: jsstring where
  "reply_light_on =
     [0x425, 0x43E, 0x440, 0x43E, 0x448, 0x43E, 0x2C, 0x20, 0x432, 0x43A, 0x43B, 0x44E, 0x447,
      0x430, 0x44E, 0x20, 0x441, 0x432, 0x435, 0x442, 0x2E]"

definition log_light_on :: jsstring where
  "log_light_on =
     [0x421, 0x432, 0x435, 0x442, 0x20, 0x432, 0x43A, 0x43B, 0x44E, 0x447, 0x435, 0x43D, 0x2E]"

definition phrase_light_off :: jsstring where
  "phrase_light_off =
     [0x432, 0x44B, 0x43A, 0x43B, 0x44E, 0x447, 0x438, 0x20, 0x441, 0x432, 0x435, 0x442]"

definition reply_light_off :: jsstring where
  "reply_light_off =
     [0x412, 0x44B, 0x43A, 0x43B, 0x44E, 0x447, 0x430, 0x44E, 0x20, 0x441, 0x432, 0x435, 0x442,
      0x2E]"

definition log_light_off :: jsstring where
  "log_light_off =
     [0x421, 0x432, 0x435, 0x442, 0x20, 0x432, 0x44B, 0x43A, 0x43B, 0x44E, 0x447, 0x435, 0x43D,
      0x2E]"

definition phrase_remember :: jsstring where
  "phrase_remember =
     [0x437, 0x430, 0x43F, 0x43E, 0x43C, 0x43D, 0x438, 0x20, 0x43B, 0x438, 0x446, 0x43E]"

definition re_as :: jsstring where
  "re_as = [0x43A, 0x430, 0x43A, 0x20]"

definition reply_ask_name :: jsstring where
  "reply_ask_name =
     [0x41A, 0x430, 0x43A, 0x20, 0x43D, 0x430, 0x437, 0x432, 0x430, 0x442, 0x44C, 0x20, 0x44D,
      0x442, 0x43E, 0x433, 0x43E, 0x20, 0x447, 0x435, 0x43B, 0x43E, 0x432, 0x435, 0x43A, 0x430,
      0x3F]"

definition reply_remembered_pre :: jsstring where
  "reply_remembered_pre =
     [0x417, 0x430, 0x43F, 0x43E, 0x43C, 0x43D, 0x438, 0x43B, 0x20, 0x43B, 0x438, 0x446, 0x43E,
      0x20, 0x43A, 0x430, 0x43A, 0x20]"

definition reply_no_face :: jsstring where
  "reply_no_face =
     [0x41D, 0x435, 0x20, 0x432, 0x438, 0x436, 0x443, 0x20, 0x43B, 0x438, 0x446, 0x43E, 0x20,
      0x434, 0x43B, 0x44F, 0x20, 0x437, 0x430, 0x43F, 0x43E, 0x43C, 0x438, 0x43D, 0x430, 0x43D,
      0x438, 0x44F, 0x2E]"

definition reply_not_understood :: jsstring where
  "reply_not_understood =
     [0x418, 0x437, 0x432, 0x438, 0x43D, 0x438, 0x442, 0x435, 0x2C, 0x20, 0x44F, 0x20, 0x43D,
      0x435, 0x20, 0x43F, 0x43E, 0x43D, 0x44F, 0x43B, 0x20, 0x43A, 0x43E, 0x43C, 0x430, 0x43D,
      0x434, 0x443, 0x2E]"

definition log_not_understood :: jsstring where
  "log_not_understood =
     [0x41D, 0x435, 0x20, 0x43F, 0x43E, 0x43D, 0x44F, 0x43B, 0x20, 0x43A, 0x43E, 0x43C, 0x430,
      0x43D, 0x434, 0x443, 0x2E]"

text \<open>
  The regular expression of line 197 is the remember phrase and a space, then an optional
  linking word with its space, then \<open>(.+)$\<close>: one or more code units, none of them a
  line terminator, up to the end of the text. \<open>dotPlusEnd\<close> is that last part;
  \<open>match_here\<close> tries the expression at the start of a text, the linking word first,
  and gives the second capture group.
\<close>

definition dotPlusEnd :: "jsstring \<Rightarrow> bool" where
  "dotPlusEnd r = (r \<noteq> [] \<and> list_all (\<lambda>c. \<not> lineTerminator c) r)"

definition match_here :: "jsstring \<Rightarrow> jsstring option" where
  "match_here t =
     (if startsWith t (phrase_remember @ [0x20])
      then (let r = drop (length (phrase_remember @ [0x20])) t
            in if startsWith r re_as \<and> dotPlusEnd (drop (length re_as) r)
               then Some (drop (length re_as) r)
               else if dotPlusEnd r then Some r else None)
      else None)"

text \<open>\<open>text.match(...)\<close>: the leftmost position where the expression matches.\<close>

fun regex_match :: "jsstring \<Rightarrow> jsstring option" where
  "regex_match [] = match_here []"
| "regex_match (c # cs) =
     (case match_here (c # cs) of Some g \<Rightarrow> Some g | None \<Rightarrow> regex_match cs)"

text \<open>Lines 196 to 200: the value of \<open>name\<close>.\<close>

definition extract_name :: "jsstring \<Rightarrow> jsstring option" where
  "extract_name t = (case regex_match t of None \<Rightarrow> None | Some g \<Rightarrow> Some (trim g))"

definition setLight :: "bool \<Rightarrow> server \<Rightarrow> server" where
  "setLight b s = s\<lparr>mem := (mem s)\<lparr>state := (state (mem s))\<lparr>light := b\<rparr>\<rparr>\<rparr>"

definition pushFace :: "face \<Rightarrow> server \<Rightarrow> server" where
  "pushFace f s = s\<lparr>mem := (mem s)\<lparr>faces := faces (mem s) @ [f]\<rparr>\<rparr>"

text \<open>Lines 196 to 211, the branch of the remember phrase.\<close>

definition remember_face :: "jsstring \<Rightarrow> server \<Rightarrow> server" where
  "remember_face t s =
     (if \<not> truthy (extract_name t) then speakText reply_ask_name s
      else (case lastFaceDescriptor (mem s) of
              Some d \<Rightarrow>
                saveMemory
                  (logPush System
                     (ascii ''Face \"'' @ the (extract_name t) @ ascii ''\" remembered'')
                     (speakText (reply_remembered_pre @ the (extract_name t) @ ascii ''.'')
                        (pushFace \<lparr>name = the (extract_name t), descriptor = d\<rparr> s)))
            | None \<Rightarrow> speakText reply_no_face s))"

text \<open>Lines 181 to 218.\<close>

definition handleVoiceCommand :: "jsstring \<Rightarrow> server \<Rightarrow> server" where
  "handleVoiceCommand transcript s =
     saveMemory
       (if includes_str (toLowerCase transcript) phrase_light_on then
          (let s1 = speakText reply_light_on (setLight True s)
           in logPush Assistant log_light_on (emit (LightState (light (state (mem s1)))) s1))
        else if includes_str (toLowerCase transcript) phrase_light_off then
          (let s1 = speakText reply_light_off (setLight False s)
           in logPush Assistant log_light_off (emit (LightState (light (state (mem s1)))) s1))
        else if includes_str (toLowerCase transcript) phrase_remember then
          remember_face (toLowerCase transcript) s
        else logPush Assistant log_not_understood (speakText reply_not_understood s))"

text \<open>Lines 91 to 100: a result of the transcription service.\<close>

definition transcriptReceived :: "bool \<Rightarrow> jsstring \<Rightarrow> server \<Rightarrow> server" where
  "transcriptReceived is_final transcript s =
     (if is_final \<and> transcript \<noteq> []
      then saveMemory
             (handleVoiceCommand transcript
                (emit (TranscriptEcho transcript) (logPush User transcript s)))
      else s)"

section \<open>Events\<close>

datatype event =
    FaceData "real list option" "jsstring option"
  | SmartHome jsstring jsstring
  | LidarData frame
  | TranscriptReceived bool jsstring

fun handle :: "event \<Rightarrow> server \<Rightarrow> server" where
  "handle (FaceData d e) s = face_data d e s"
| "handle (SmartHome device action) s = smart_home device action s"
| "handle (LidarData fr) s = lidar_data fr s"
| "handle (TranscriptReceived is_final transcript) s = transcriptReceived is_final transcript s"

text \<open>The effects a step added, and how many of them are writes of the document.\<close>

definition added :: "server \<Rightarrow> server \<Rightarrow> effect list" where
  "added s s' = drop (length (effects s)) (effects s')"

definition flushes :: "server \<Rightarrow> server \<Rightarrow> nat" where
  "flushes s s' = length (filter isSave (added s s'))"

section \<open>The admin panel\<close>

record response =
  status :: nat
  body :: jsstring

text \<open>\<open>process.env.ADMIN_TOKEN || 'secret123'\<close>: an unset or empty variable gives the default.\<close>

definition validToken :: "jsstring option \<Rightarrow> jsstring" where
  "validToken env = (if truthy env then the env else ascii ''secret123'')"

fun author_str :: "author \<Rightarrow> jsstring" where
  "author_str User = ascii ''user''"
| "author_str Assistant = ascii ''assistant''"
| "author_str System = ascii ''system''"

text \<open>
  Lines 233 to 260. \<open>fmt\<close> stands for \<open>new Date(t).toLocaleTimeString()\<close>, which
  depends on the locale of the host; \<open>token\<close> is the query parameter, absent or a
  string.
\<close>

definition admin :: "(nat \<Rightarrow> jsstring) \<Rightarrow> jsstring option \<Rightarrow> jsstring option \<Rightarrow> memory \<Rightarrow> response" where
  "admin fmt env token m =
     (if token \<noteq> Some (validToken env)
      then \<lparr>status = 401, body = ascii ''Unauthorized''\<rparr>
      else \<lparr>status = 200,
            body =
              ascii ''<h1>Admin Panel</h1>'' @
              ascii ''<h2>Known Faces:</h2><ul>'' @
              concat (map (\<lambda>person. ascii ''<li>'' @ name person @ ascii ''</li>'') (faces m)) @
              ascii ''</ul>'' @
              ascii ''<h2>Smart Home State:</h2>'' @
              ascii ''<p>Light: '' @ (if light (state m) then ascii ''ON'' else ascii ''OFF'') @
              ascii ''</p>'' @
              ascii ''<h2>Emotion History:</h2><pre>'' @
              concat (map (\<lambda>e. ascii ''['' @ fmt (etime e) @ ascii ''] '' @ emotion e @ [0x0A])
                        (emotionHistory m)) @
              ascii ''</pre>'' @
              ascii ''<h2>Conversation Log:</h2><pre>'' @
              concat (map (\<lambda>entry. ascii ''['' @ fmt (time entry) @ ascii ''] '' @
                                    author_str (sender entry) @ ascii '': '' @ content entry @ [0x0A])
                        (conversationLog m)) @
              ascii ''</pre>''\<rparr>)"

section \<open>Notions used by the properties\<close>

text \<open>The pair \<open>(bestDistance, recognizedName)\<close> after the loop over the known faces.\<close>

definition scan :: "real list \<Rightarrow> face list \<Rightarrow> number \<times> jsstring option" where
  "scan q known = fold (consider_person (Float32Array_from q)) known (Infinity, None)"

text \<open>The distance the loop computes between the query \<open>q\<close> and the record \<open>r\<close>.\<close>

definition dist :: "real list \<Rightarrow> face \<Rightarrow> number" where
  "dist q r = distance (Float32Array_from (descriptor r)) (Float32Array_from q)"

text \<open>Not below zero: a finite value that is not negative, positive infinity, or NaN.\<close>

fun notNegative :: "number \<Rightarrow> bool" where
  "notNegative (Num a) = (0 \<le> a)"
| "notNegative NegInfinity = False"
| "notNegative x = True"

text \<open>
  Index \<open>i\<close> is the one the loop settles on: its distance is below the threshold, no
  record is strictly nearer, and no earlier record is at the same distance.
\<close>

definition chosen :: "real list \<Rightarrow> face list \<Rightarrow> nat \<Rightarrow> bool" where
  "chosen q known i \<longleftrightarrow>
     i < length known \<and> nlt (dist q (known ! i)) threshold \<and>
     (\<forall>j<length known. \<not> nlt (dist q (known ! j)) (dist q (known ! i))) \<and>
     (\<forall>j<i. dist q (known ! j) \<noteq> dist q (known ! i))"

fun noAdjacentEqual :: "'a list \<Rightarrow> bool" where
  "noAdjacentEqual (x # y # zs) = (x \<noteq> y \<and> noAdjacentEqual (y # zs))"
| "noAdjacentEqual zs = True"

text \<open>
  The run-length invariant of the emotion history, with what keeps it: the last recorded
  label is the one in \<open>lastEmotion\<close>.
\<close>

definition rle_inv :: "memory \<Rightarrow> bool" where
  "rle_inv m \<longleftrightarrow>
     noAdjacentEqual (map emotion (emotionHistory m)) \<and>
     (emotionHistory m \<noteq> [] \<longrightarrow> lastEmotion m = Some (emotion (last (emotionHistory m))))"

text \<open>The transcript takes the branch that stores a face (lines 203 to 208).\<close>

definition remembers :: "jsstring \<Rightarrow> server \<Rightarrow> bool" where
  "remembers transcript s \<longleftrightarrow>
     \<not> includes_str (toLowerCase transcript) phrase_light_on \<and>
     \<not> includes_str (toLowerCase transcript) phrase_light_off \<and>
     includes_str (toLowerCase transcript) phrase_remember \<and>
     truthy (extract_name (toLowerCase transcript)) \<and>
     lastFaceDescriptor (mem s) \<noteq> None"

subsection \<open>Concrete inputs\<close>

definition wallClock :: "nat \<Rightarrow> nat" where
  "wallClock k = 1000 + k"

definition server0 :: server where
  "server0 = \<lparr>mem = initialMemory, effects = [], clock = wallClock, ticks = 0\<rparr>"

text \<open>A server that has seen the descriptor \<open>[1]\<close> and nothing else.\<close>

definition server1 :: server where
  "server1 =
     \<lparr>mem = initialMemory\<lparr>lastFaceDescriptor := Some [1]\<rparr>, effects = [],
      clock = wallClock, ticks = 0\<rparr>"

text \<open>
  The transcript that asks to remember the face under a capitalised name (its last four
  code units), that name, and the same name in lower case.
\<close>

definition cmd_remember_Anna :: jsstring where
  "cmd_remember_Anna =
     [0x437, 0x430, 0x43F, 0x43E, 0x43C, 0x43D, 0x438, 0x20, 0x43B, 0x438, 0x446, 0x43E, 0x20,
      0x43A, 0x430, 0x43A, 0x20, 0x410, 0x43D, 0x43D, 0x430]"

definition name_Anna :: jsstring where
  "name_Anna = [0x410, 0x43D, 0x43D, 0x430]"

definition name_anna :: jsstring where
  "name_anna = [0x430, 0x43D, 0x43D, 0x430]"

definition noTime :: "nat \<Rightarrow> jsstring" where
  "noTime t = ascii ''--:--:--''"

section \<open>Properties\<close>

lemmas server_defs =
  speakText_def logPush_def emit_def saveMemory_def Date_now_def setLight_def pushFace_def

lemmas fixture_defs = server0_def server1_def initialMemory_def wallClock_def

subsection \<open>The smart-home handler\<close>

text \<open>
  C10. For a smart-home event whose device is \<open>light\<close>, \<open>state.light\<close> becomes true
  exactly when the action is the string \<open>on\<close>, the new value is sent to every
  connection and the document is written, in this order, and nothing else of the memory
  changes. For any other device the handler changes nothing, sends nothing and writes
  nothing.
\<close>

theorem smart_home_light:
  "(device = ascii ''light'' \<longrightarrow>
      light (state (mem (smart_home device action s))) = (action = ascii ''on'') \<and>
      mem (smart_home device action s)
        = (mem s)\<lparr>state := (state (mem s))\<lparr>light := (action = ascii ''on'')\<rparr>\<rparr> \<and>
      added s (smart_home device action s)
        = [LightState (action = ascii ''on''), SaveMemory (mem (smart_home device action s))]) \<and>
   (device \<noteq> ascii ''light'' \<longrightarrow> smart_home device action s = s)"
  by (simp add: smart_home_def added_def server_defs Let_def)

theorem smart_home_light_witness:
  "light (state (mem (smart_home (ascii ''light'') (ascii ''on'') server0))) \<and>
   \<not> light (state (mem (smart_home (ascii ''light'') (ascii ''toggle'') server0))) \<and>
   smart_home (ascii ''fan'') (ascii ''on'') server0 = server0"
  using smart_home_light [of "ascii ''light''" "ascii ''on''" server0]
    smart_home_light [of "ascii ''light''" "ascii ''toggle''" server0]
    smart_home_light [of "ascii ''fan''" "ascii ''on''" server0]
  by (simp add: ascii_def)

subsection \<open>The admin panel\<close>

text \<open>
  C9. A request whose token is not the configured secret gets status 401 with the fixed
  body \<open>Unauthorized\<close>; the response is the same whatever the memory holds.
\<close>

theorem admin_unauthorized:
  "token \<noteq> Some (validToken env) \<Longrightarrow>
   admin fmt env token m = \<lparr>status = 401, body = ascii ''Unauthorized''\<rparr> \<and>
   admin fmt env token m = admin fmt env token m'"
  by (simp add: admin_def)

theorem admin_unauthorized_witness:
  "Some (ascii ''guess'') \<noteq> Some (validToken None) \<and>
   admin noTime None (Some (ascii ''guess'')) (mem server1)
     = \<lparr>status = 401, body = ascii ''Unauthorized''\<rparr> \<and>
   admin noTime None (Some (ascii ''guess'')) (mem server1)
     = admin noTime None (Some (ascii ''guess'')) initialMemory"
proof -
  have h: "Some (ascii ''guess'') \<noteq> Some (validToken None)"
    by (simp add: validToken_def truthy_def ascii_def)
  show ?thesis
    using h admin_unauthorized [OF h, of noTime "mem server1" initialMemory] by blast
qed

subsection \<open>Rounding\<close>

lemma floor_log2_eq:
  assumes "0 < x" "2 powr of_int k \<le> x" "x < 2 powr of_int (k + 1)"
  shows "\<lfloor>log 2 x\<rfloor> = k"
proof (rule floor_unique)
  show "of_int k \<le> log 2 x" using assms by (simp add: le_log_iff)
  show "log 2 x < of_int k + 1" using assms by (simp add: log_less_iff)
qed

lemma toDouble_zero: "toDouble 0 = Num 0"
  by (simp add: toDouble_def ieee_round_def)

lemma fround_zero: "fround 0 = Num 0"
  by (simp add: fround_def ieee_round_def)

lemma roundHalfEven_nonneg: "0 \<le> x \<Longrightarrow> 0 \<le> roundHalfEven x"
  by (simp add: roundHalfEven_def)

lemma roundHalfEven_below: "x - of_int \<lfloor>x\<rfloor> < 1 / 2 \<Longrightarrow> roundHalfEven x = \<lfloor>x\<rfloor>"
  by (simp add: roundHalfEven_def)

lemma roundHalfEven_ge_floor: "\<lfloor>x\<rfloor> \<le> roundHalfEven x"
  by (simp add: roundHalfEven_def)

lemma ieee_round_eval:
  assumes "x \<noteq> 0" and "\<lfloor>log 2 \<bar>x\<bar>\<rfloor> = e" and "emin \<le> e"
    and "roundHalfEven (x / 2 powr of_int (e - (int p - 1))) = n"
    and "\<bar>of_int n * 2 powr of_int (e - (int p - 1)) :: real\<bar> < 2 powr of_int (emax + 1)"
  shows "ieee_round p emin emax x = Num (of_int n * 2 powr of_int (e - (int p - 1)))"
proof -
  have "quantum p emin x = 2 powr of_int (e - (int p - 1))"
    using assms(2,3) by (simp add: quantum_def max_def)
  then show ?thesis using assms(1,4,5) by (simp add: ieee_round_def)
qed

lemma roundHalfEven_of_int: "roundHalfEven (of_int n) = n"
  by (simp add: roundHalfEven_def)

lemma ieee_round_pow2:
  assumes "emin \<le> k" and "k \<le> emax" and "0 < p"
  shows "ieee_round p emin emax (2 powr of_int k) = Num (2 powr of_int k)"
proof -
  have e: "\<lfloor>log 2 \<bar>2 powr of_int k :: real\<bar>\<rfloor> = k" by simp
  have "(2 powr of_int k :: real) / 2 powr of_int (k - (int p - 1)) = 2 powr of_int (int p - 1)"
    by (simp flip: powr_diff)
  also have "\<dots> = 2 powr real (p - 1)" using assms(3) by (simp add: of_nat_diff)
  also have "\<dots> = of_int (2 ^ (p - 1))" by (simp add: powr_realpow)
  finally have r: "roundHalfEven ((2 powr of_int k) / 2 powr of_int (k - (int p - 1))) = 2 ^ (p - 1)"
    by (simp only: roundHalfEven_of_int)
  have again: "of_int (2 ^ (p - 1)) * 2 powr of_int (k - (int p - 1)) = (2 powr of_int k :: real)"
  proof -
    have "of_int (2 ^ (p - 1)) = (2 powr real (p - 1) :: real)" by (simp add: powr_realpow)
    also have "\<dots> = 2 powr of_int (int p - 1)" using assms(3) by (simp add: of_nat_diff)
    finally show ?thesis by (simp flip: powr_add)
  qed
  have "ieee_round p emin emax (2 powr of_int k)
          = Num (of_int (2 ^ (p - 1)) * 2 powr of_int (k - (int p - 1)))"
  proof (rule ieee_round_eval [OF _ e assms(1) r])
    show "(2 powr of_int k :: real) \<noteq> 0" by simp
    show "\<bar>of_int (2 ^ (p - 1)) * 2 powr of_int (k - (int p - 1)) :: real\<bar> < 2 powr of_int (emax + 1)"
      unfolding again using assms(2) by simp
  qed
  then show ?thesis by (simp only: again)
qed

lemma quantum_pos: "0 < quantum p emin x"
  by (simp add: quantum_def)

lemma ieee_round_notNegative:
  assumes "0 \<le> x"
  shows "notNegative (ieee_round p emin emax x)"
proof -
  have "0 \<le> x / quantum p emin x" using assms quantum_pos [of p emin x] by simp
  then have "0 \<le> roundHalfEven (x / quantum p emin x)" by (rule roundHalfEven_nonneg)
  then have "0 \<le> of_int (roundHalfEven (x / quantum p emin x)) * quantum p emin x"
    using quantum_pos [of p emin x] by simp
  then show ?thesis using assms by (auto simp: ieee_round_def)
qed

lemma toDouble_notNegative: "0 \<le> x \<Longrightarrow> notNegative (toDouble x)"
  by (simp add: toDouble_def ieee_round_notNegative)

text \<open>The threshold is the double just below six tenths.\<close>

lemma threshold_value: "threshold = Num (5404319552844595 / 9007199254740992)"
proof -
  have "\<lfloor>log 2 (6 / 10 :: real)\<rfloor> = - 1"
    by (rule floor_log2_eq) (simp_all add: powr_minus)
  then have q: "quantum 53 (- 1022) (6 / 10) = 1 / 2 ^ 53"
    by (simp add: quantum_def powr_minus powr_realpow flip: powr_realpow)
  have v: "(6 / 10 :: real) / (1 / 2 ^ 53) = 27021597764222976 / 5" by simp
  have f: "\<lfloor>27021597764222976 / 5 :: real\<rfloor> = 5404319552844595" by simp
  have r: "roundHalfEven (27021597764222976 / 5) = 5404319552844595"
    by (subst roundHalfEven_below) (simp_all add: f)
  have small: "\<not> (2 powr of_int (1023 + 1) \<le> \<bar>5404319552844595 * (1 / 2 ^ 53) :: real\<bar>)"
  proof -
    have "(1 :: real) \<le> 2 powr of_int (1023 + 1)" by (simp add: ge_one_powr_ge_zero)
    moreover have "\<bar>5404319552844595 * (1 / 2 ^ 53) :: real\<bar> < 1" by simp
    ultimately show ?thesis by linarith
  qed
  show ?thesis
    unfolding threshold_def toDouble_def ieee_round_def q v r using small by simp
qed

text \<open>A sum can absorb a small term: one quarter plus \<open>2 ^ -60\<close> is one quarter.\<close>

lemma toDouble_absorbs: "toDouble (1 / 4 + 1 / 2 ^ 60) = Num (1 / 4)"
proof -
  have "\<lfloor>log 2 \<bar>1 / 4 + 1 / 2 ^ 60 :: real\<bar>\<rfloor> = - 2"
    by (rule floor_log2_eq) (simp_all add: powr_minus)
  then have q: "quantum 53 (- 1022) (1 / 4 + 1 / 2 ^ 60) = 1 / 2 ^ 54"
    by (simp add: quantum_def powr_minus powr_realpow flip: powr_realpow)
  have v: "(1 / 4 + 1 / 2 ^ 60 :: real) / (1 / 2 ^ 54) = 288230376151711745 / 64" by simp
  have f: "\<lfloor>288230376151711745 / 64 :: real\<rfloor> = 4503599627370496" by simp
  have r: "roundHalfEven (288230376151711745 / 64) = 4503599627370496"
    by (subst roundHalfEven_below) (simp_all add: f)
  have small: "\<not> (2 powr of_int (1023 + 1) \<le> \<bar>4503599627370496 * (1 / 2 ^ 54) :: real\<bar>)"
  proof -
    have "(1 :: real) \<le> 2 powr of_int (1023 + 1)" by (simp add: ge_one_powr_ge_zero)
    moreover have "\<bar>4503599627370496 * (1 / 2 ^ 54) :: real\<bar> < 1" by simp
    ultimately show ?thesis by linarith
  qed
  show ?thesis
    unfolding toDouble_def ieee_round_def q v r using small by simp
qed

text \<open>A value beyond the binary32 range is stored as an infinity.\<close>

lemma fround_overflows: "fround (10 ^ 39) = Infinity"
proof -
  have "\<lfloor>log 2 \<bar>10 ^ 39 :: real\<bar>\<rfloor> = 129"
    by (rule floor_log2_eq) (simp_all add: powr_realpow flip: powr_realpow)
  then have q: "quantum 24 (- 126) (10 ^ 39) = 2 ^ 106"
    by (simp add: quantum_def powr_realpow flip: powr_realpow)
  have "\<lfloor>(10 ^ 39 :: real) / 2 ^ 106\<rfloor> \<ge> 2 ^ 22" by (simp add: le_floor_iff)
  then have "roundHalfEven (10 ^ 39 / 2 ^ 106) \<ge> 2 ^ 22"
    using roundHalfEven_ge_floor [of "10 ^ 39 / 2 ^ 106"] by linarith
  then have "(2 ^ 22 :: real) \<le> of_int (roundHalfEven (10 ^ 39 / 2 ^ 106))"
    by (metis of_int_le_iff of_int_numeral of_int_power)
  then have "(2 ^ 22 :: real) * 2 ^ 106 \<le> of_int (roundHalfEven (10 ^ 39 / 2 ^ 106)) * 2 ^ 106"
    by (rule mult_right_mono) simp
  moreover have "2 powr of_int (127 + 1) = (2 ^ 22 :: real) * 2 ^ 106"
    by (simp add: powr_realpow flip: powr_realpow)
  ultimately have "2 powr of_int (127 + 1)
      \<le> \<bar>of_int (roundHalfEven (10 ^ 39 / 2 ^ 106)) * (2 ^ 106 :: real)\<bar>"
    by linarith
  then show ?thesis
    unfolding fround_def ieee_round_def q by simp
qed

subsection \<open>The face matcher\<close>

lemma nlt_irrefl: "\<not> nlt a a" by (cases a) auto

lemma nlt_trans: "nlt a b \<Longrightarrow> nlt b c \<Longrightarrow> nlt a c"
  by (cases a; cases b; cases c) auto

lemma nlt_threshold_Infinity: "nlt a threshold \<Longrightarrow> nlt a Infinity"
  by (cases a) (auto simp: threshold_value)

lemma scan_snoc: "scan q (xs @ [p]) = consider_person (Float32Array_from q) p (scan q xs)"
  by (simp add: scan_def)

lemma recognize_scan: "recognize (Some q) known = snd (scan q known)"
  by (cases known) (simp_all add: recognize_def scan_def)

lemma consider_person_dist:
  "consider_person (Float32Array_from q) p bn
     = (if nlt (dist q p) threshold \<and> nlt (dist q p) (fst bn)
        then (dist q p, Some (name p)) else bn)"
  by (simp add: consider_person_def dist_def)

lemma scan_char:
  "(snd (scan q known) = None \<longrightarrow>
      fst (scan q known) = Infinity \<and> (\<forall>p\<in>set known. \<not> nlt (dist q p) threshold)) \<and>
   (\<forall>x. snd (scan q known) = Some x \<longrightarrow>
      (\<exists>i. chosen q known i \<and> x = name (known ! i) \<and> fst (scan q known) = dist q (known ! i)))"
proof (induction known rule: rev_induct)
  case Nil
  show ?case by (simp add: scan_def)
next
  case (snoc p xs)
  let ?d = "dist q p"
  obtain b n where bn: "scan q xs = (b, n)" by (cases "scan q xs")
  show ?case
  proof (cases "nlt ?d threshold \<and> nlt ?d b")
    case True
    have new: "scan q (xs @ [p]) = (?d, Some (name p))"
      using True bn by (simp add: scan_snoc consider_person_dist)
    have below: "\<not> nlt (dist q (xs ! j)) ?d" if "j < length xs" for j
    proof (cases n)
      case None
      with snoc bn that have "\<not> nlt (dist q (xs ! j)) threshold" by simp
      with True show ?thesis using nlt_trans by blast
    next
      case (Some x)
      with snoc bn obtain i where "chosen q xs i" "b = dist q (xs ! i)" by auto
      with that have "\<not> nlt (dist q (xs ! j)) b" by (simp add: chosen_def)
      with True show ?thesis using nlt_trans by blast
    qed
    have neq: "dist q (xs ! j) \<noteq> ?d" if "j < length xs" for j
    proof (cases n)
      case None
      with snoc bn that have "\<not> nlt (dist q (xs ! j)) threshold" by simp
      with True show ?thesis by auto
    next
      case (Some x)
      with snoc bn obtain i where "chosen q xs i" "b = dist q (xs ! i)" by auto
      with that have "\<not> nlt (dist q (xs ! j)) b" by (simp add: chosen_def)
      with True show ?thesis by auto
    qed
    have "chosen q (xs @ [p]) (length xs)"
      unfolding chosen_def using True below neq
      by (auto simp: nth_append less_Suc_eq nlt_irrefl)
    with new show ?thesis by auto
  next
    case False
    have same: "scan q (xs @ [p]) = (b, n)"
      using False bn by (auto simp add: scan_snoc consider_person_dist)
    show ?thesis
    proof (cases n)
      case None
      with snoc bn have b: "b = Infinity" and old: "\<forall>p\<in>set xs. \<not> nlt (dist q p) threshold"
        by auto
      from False b have "\<not> nlt ?d threshold" using nlt_threshold_Infinity by blast
      with same None b old show ?thesis by auto
    next
      case (Some x)
      with snoc bn obtain i where i: "chosen q xs i" "x = name (xs ! i)" "b = dist q (xs ! i)"
        by auto
      then have bt: "nlt b threshold" by (simp add: chosen_def)
      have "\<not> nlt ?d b" using False bt nlt_trans by blast
      with i have "chosen q (xs @ [p]) i"
        unfolding chosen_def by (auto simp: nth_append less_Suc_eq)
      moreover have "(xs @ [p]) ! i = xs ! i" using i by (simp add: chosen_def nth_append)
      ultimately show ?thesis using same Some i by auto
    qed
  qed
qed


lemma sq_step_NaN: "sq_step k q i NaN = NaN"
  by (simp add: sq_step_def)

lemma fold_sq_step_NaN: "fold (sq_step k q) is NaN = NaN"
  by (induction "is") (simp_all add: sq_step_NaN)

lemma nadd_NaN_right: "nadd x NaN = NaN"
  by (cases x) auto

lemma sq_step_past_end: "length q \<le> i \<Longrightarrow> sq_step k q i acc = NaN"
  by (simp add: sq_step_def elem_def nsub_def nadd_NaN_right)

lemma fold_sq_step_hits_end:
  "i \<in> set is \<Longrightarrow> length q \<le> i \<Longrightarrow> fold (sq_step k q) is acc = NaN"
proof (induction "is" arbitrary: acc)
  case Nil
  then show ?case by simp
next
  case (Cons j js)
  show ?case
  proof (cases "j = i")
    case True
    with Cons.prems show ?thesis by (simp add: sq_step_past_end fold_sq_step_NaN)
  next
    case False
    with Cons show ?thesis by simp
  qed
qed

lemma distance_query_short: "length q < length k \<Longrightarrow> distance k q = NaN"
proof -
  assume a: "length q < length k"
  then have "length q \<in> set [0..<length k]" by simp
  then have "sumSq k q = NaN"
    unfolding sumSq_def by (rule fold_sq_step_hits_end) simp
  then show ?thesis by (simp add: distance_def)
qed

lemma nmul_self_notNegative: "notNegative (nmul d d)"
  by (cases d) (simp_all add: toDouble_notNegative)

lemma nadd_notNegative: "notNegative a \<Longrightarrow> notNegative b \<Longrightarrow> notNegative (nadd a b)"
  by (cases a; cases b) (simp_all add: toDouble_notNegative)

lemma nsqrt_notNegative: "notNegative a \<Longrightarrow> notNegative (nsqrt a)"
  by (cases a) (simp_all add: toDouble_notNegative)

lemma fold_sq_step_notNegative:
  "notNegative acc \<Longrightarrow> notNegative (fold (sq_step k q) is acc)"
  by (induction "is" arbitrary: acc)
     (simp_all add: sq_step_def nadd_notNegative nmul_self_notNegative)

lemma distance_notNegative: "notNegative (distance k q)"
  by (simp add: distance_def sumSq_def nsqrt_notNegative fold_sq_step_notNegative)

lemma sq_step_self:
  "i < length ta \<Longrightarrow> isFinite (ta ! i) \<Longrightarrow> sq_step ta ta i (Num 0) = Num 0"
  by (cases "ta ! i") (simp_all add: sq_step_def elem_def nsub_def toDouble_zero)

lemma fold_sq_step_self:
  "\<forall>i\<in>set is. i < length ta \<and> isFinite (ta ! i) \<Longrightarrow> fold (sq_step ta ta) is (Num 0) = Num 0"
  by (induction "is") (simp_all add: sq_step_self)

lemma distance_self: "list_all isFinite ta \<Longrightarrow> distance ta ta = Num 0"
proof -
  assume "list_all isFinite ta"
  then have "\<forall>i\<in>set [0..<length ta]. i < length ta \<and> isFinite (ta ! i)"
    by (simp add: list_all_length)
  then have "sumSq ta ta = Num 0" unfolding sumSq_def by (rule fold_sq_step_self)
  then show ?thesis by (simp add: distance_def toDouble_zero)
qed

lemma sq_step_take:
  "i < length k \<Longrightarrow> sq_step k (take (length k) q) i = sq_step k q i"
  by (rule ext) (simp add: sq_step_def elem_def)

lemma distance_truncates: "distance k (take (length k) q) = distance k q"
proof -
  have "fold (sq_step k (take (length k) q)) [0..<length k] (Num 0)
          = fold (sq_step k q) [0..<length k] (Num 0)"
    by (rule fold_cong) (simp_all add: sq_step_take)
  then show ?thesis by (simp add: distance_def sumSq_def)
qed

lemma dist_truncates: "dist (take (length (descriptor r)) q) r = dist q r"
  using distance_truncates [of "Float32Array_from (descriptor r)" "Float32Array_from q"]
  by (simp add: dist_def Float32Array_from_def take_map)

lemma dist_query_short: "length q < length (descriptor r) \<Longrightarrow> dist q r = NaN"
  by (simp add: dist_def distance_query_short Float32Array_from_def)

lemma dist_self:
  "list_all isFinite (Float32Array_from (descriptor r)) \<Longrightarrow> dist (descriptor r) r = Num 0"
  by (simp add: dist_def distance_self)

lemma dist_notNegative: "notNegative (dist q r)"
  by (simp add: dist_def distance_notNegative)

lemma recognize_skips_longer:
  assumes "length q < length (descriptor r)"
  shows "recognize (Some q) (xs @ r # ys) = recognize (Some q) (xs @ ys)"
proof -
  have "consider_person (Float32Array_from q) r = id"
    using dist_query_short [OF assms] by (auto simp: consider_person_dist)
  then have "scan q (xs @ r # ys) = scan q (xs @ ys)" by (simp add: scan_def)
  then show ?thesis by (simp add: recognize_scan)
qed

lemma consider_person_truncates:
  "consider_person (Float32Array_from (take (length (descriptor r)) q)) r bn
     = consider_person (Float32Array_from q) r bn"
  by (simp add: consider_person_dist dist_truncates)

lemma exact_first:
  assumes i: "i < length known" and eq: "descriptor (known ! i) = q"
    and fin: "list_all isFinite (Float32Array_from q)"
  shows "\<exists>k\<le>i. recognize (Some q) known = Some (name (known ! k))
            \<and> dist q (known ! k) = Num 0
            \<and> (\<forall>j<k. dist q (known ! j) \<noteq> Num 0)"
proof -
  have d0: "dist q (known ! i) = Num 0" using eq fin dist_self [of "known ! i"] by simp
  have "known ! i \<in> set known" using i by simp
  moreover have "nlt (dist q (known ! i)) threshold" using d0 by (simp add: threshold_value)
  ultimately have "\<not> (\<forall>p\<in>set known. \<not> nlt (dist q p) threshold)"
    by blast
  with scan_char [of q known] obtain x where x: "snd (scan q known) = Some x"
    by (cases "snd (scan q known)") auto
  with scan_char [of q known] obtain k where k: "chosen q known k" "x = name (known ! k)"
    by auto
  from k(1) i have nb: "\<not> nlt (Num 0) (dist q (known ! k))"
    and acc: "nlt (dist q (known ! k)) threshold"
    and first: "\<forall>j<k. dist q (known ! j) \<noteq> dist q (known ! k)"
    using d0 by (auto simp: chosen_def)
  have dk: "dist q (known ! k) = Num 0"
    using nb acc dist_notNegative [of q "known ! k"]
    by (cases "dist q (known ! k)") (simp_all add: threshold_value)
  have "k \<le> i"
  proof (rule ccontr)
    assume "\<not> k \<le> i"
    then have "i < k" by simp
    with first d0 dk show False by auto
  qed
  with x k dk first show ?thesis by (auto simp: recognize_scan)
qed

text \<open>
  A descriptor with a component beyond the binary32 range does not match itself: the
  component is stored as an infinity and the difference of two infinities is NaN.
\<close>

lemma overflow_no_match:
  "fround x = Infinity \<Longrightarrow> recognize (Some [x]) [\<lparr>name = n, descriptor = [x]\<rparr>] = None"
  by (simp add: recognize_def consider_person_def distance_def sumSq_def sq_step_def elem_def
      nsub_def Float32Array_from_def)

lemma exact_match_overflow:
  "recognize (Some [10 ^ 39]) [\<lparr>name = ascii ''A'', descriptor = [10 ^ 39]\<rparr>] = None"
  by (rule overflow_no_match [OF fround_overflows])

text \<open>
  Two more inputs on which the rounding decides. A small second component is absorbed by
  the sum, so a record that is farther away in exact arithmetic ties with the nearer one
  and, coming first, is kept. Two different components that are stored as the same
  binary32 value are at distance 0 from each other.
\<close>

lemma toDouble_half: "toDouble (1 / 2) = Num (1 / 2)"
  using ieee_round_pow2 [of "- 1022" "- 1" 1023 53] by (simp add: toDouble_def powr_minus)

lemma toDouble_quarter: "toDouble (1 / 4) = Num (1 / 4)"
  using ieee_round_pow2 [of "- 1022" "- 2" 1023 53]
  by (simp add: toDouble_def powr_minus powr_realpow flip: powr_realpow)

lemma toDouble_tiny: "toDouble (1 / 2 ^ 30) = Num (1 / 2 ^ 30)"
  using ieee_round_pow2 [of "- 1022" "- 30" 1023 53]
  by (simp add: toDouble_def powr_minus powr_realpow flip: powr_realpow)

lemma toDouble_tiny_sq: "toDouble (1 / 2 ^ 60) = Num (1 / 2 ^ 60)"
  using ieee_round_pow2 [of "- 1022" "- 60" 1023 53]
  by (simp add: toDouble_def powr_minus powr_realpow flip: powr_realpow)

lemma fround_half: "fround (1 / 2) = Num (1 / 2)"
  using ieee_round_pow2 [of "- 126" "- 1" 127 24] by (simp add: fround_def powr_minus)

lemma fround_tiny: "fround (1 / 2 ^ 30) = Num (1 / 2 ^ 30)"
  using ieee_round_pow2 [of "- 126" "- 30" 127 24]
  by (simp add: fround_def powr_minus powr_realpow flip: powr_realpow)

lemma first_of_two_equal:
  assumes "Float32Array_from q = Q" and "Float32Array_from a = KA" and "Float32Array_from b = KB"
    and "distance KA Q = Num x" and "distance KB Q = Num x"
    and "x < 5404319552844595 / 9007199254740992"
  shows "recognize (Some q) [\<lparr>name = na, descriptor = a\<rparr>, \<lparr>name = nb, descriptor = b\<rparr>] = Some na"
  using assms by (simp add: recognize_def consider_person_def threshold_value)

lemma absorbed_tie:
  "recognize (Some [0, 0]) [\<lparr>name = ascii ''A'', descriptor = [1 / 2, 1 / 2 ^ 30]\<rparr>,
                             \<lparr>name = ascii ''B'', descriptor = [1 / 2, 0]\<rparr>] = Some (ascii ''A'')"
proof (rule first_of_two_equal)
  show "Float32Array_from [0, 0] = [Num 0, Num 0]"
    by (simp only: Float32Array_from_def list.map fround_zero)
  show "Float32Array_from [1 / 2, 1 / 2 ^ 30] = [Num (1 / 2), Num (1 / 2 ^ 30)]"
    by (simp only: Float32Array_from_def list.map fround_half fround_tiny)
  show "Float32Array_from [1 / 2, 0] = [Num (1 / 2), Num 0]"
    by (simp only: Float32Array_from_def list.map fround_half fround_zero)
  show "distance [Num (1 / 2), Num (1 / 2 ^ 30)] [Num 0, Num 0] = Num (1 / 2)"
    using toDouble_half toDouble_quarter toDouble_tiny toDouble_tiny_sq toDouble_absorbs
    by (simp add: distance_def sumSq_def sq_step_def elem_def nsub_def real_sqrt_divide)
  show "distance [Num (1 / 2), Num 0] [Num 0, Num 0] = Num (1 / 2)"
    using toDouble_half toDouble_quarter toDouble_zero
    by (simp add: distance_def sumSq_def sq_step_def elem_def nsub_def real_sqrt_divide)
  show "(1 / 2 :: real) < 5404319552844595 / 9007199254740992" by simp
qed

lemma fround_tenth: "fround (1 / 10) = Num (13421773 / 2 ^ 27)"
proof -
  have e: "\<lfloor>log 2 \<bar>1 / 10 :: real\<bar>\<rfloor> = - 4"
    by (rule floor_log2_eq) (simp_all add: powr_minus powr_realpow flip: powr_realpow)
  have "\<lfloor>134217728 / 10 :: real\<rfloor> = 13421772" by simp
  then have "roundHalfEven (134217728 / 10) = 13421773"
    by (simp add: roundHalfEven_def)
  then have r: "roundHalfEven ((1 / 10) / 2 powr of_int (- 4 - (int 24 - 1))) = 13421773"
    by (simp add: powr_minus powr_realpow flip: powr_realpow)
  have "fround (1 / 10) = Num (of_int 13421773 * 2 powr of_int (- 4 - (int 24 - 1)))"
    unfolding fround_def
    by (rule ieee_round_eval [OF _ e _ r]) (simp_all add: powr_minus powr_realpow flip: powr_realpow)
  then show ?thesis by (simp add: powr_minus powr_realpow flip: powr_realpow)
qed

lemma fround_tenth_and_a_bit: "fround (1000000001 / 10000000000) = Num (13421773 / 2 ^ 27)"
proof -
  have e: "\<lfloor>log 2 \<bar>1000000001 / 10000000000 :: real\<bar>\<rfloor> = - 4"
    by (rule floor_log2_eq) (simp_all add: powr_minus powr_realpow flip: powr_realpow)
  have "\<lfloor>134217728 * 1000000001 / 10000000000 :: real\<rfloor> = 13421772" by simp
  then have "roundHalfEven (134217728 * 1000000001 / 10000000000) = 13421773"
    by (simp add: roundHalfEven_def)
  then have r: "roundHalfEven ((1000000001 / 10000000000) / 2 powr of_int (- 4 - (int 24 - 1))) = 13421773"
    by (simp add: powr_minus powr_realpow flip: powr_realpow)
  have "fround (1000000001 / 10000000000) = Num (of_int 13421773 * 2 powr of_int (- 4 - (int 24 - 1)))"
    unfolding fround_def
    by (rule ieee_round_eval [OF _ e _ r]) (simp_all add: powr_minus powr_realpow flip: powr_realpow)
  then show ?thesis by (simp add: powr_minus powr_realpow flip: powr_realpow)
qed

lemma same_stored_value:
  assumes "fround a = fround b" and "isFinite (fround b)"
  shows "recognize (Some [b]) [\<lparr>name = ascii ''A'', descriptor = [a]\<rparr>,
                               \<lparr>name = ascii ''B'', descriptor = [b]\<rparr>] = Some (ascii ''A'')"
proof -
  from assms(2) obtain v where "fround b = Num v" by (cases "fround b") simp_all
  with assms(1) show ?thesis
    by (simp add: recognize_def consider_person_def distance_def sumSq_def sq_step_def elem_def
        nsub_def Float32Array_from_def toDouble_zero threshold_value)
qed

lemma rounded_to_same_float:
  "recognize (Some [1000000001 / 10000000000])
     [\<lparr>name = ascii ''A'', descriptor = [1 / 10]\<rparr>,
      \<lparr>name = ascii ''B'', descriptor = [1000000001 / 10000000000]\<rparr>] = Some (ascii ''A'')"
  by (rule same_stored_value) (simp_all only: fround_tenth fround_tenth_and_a_bit isFinite.simps)

lemmas matcher_defs =
  recognize_def consider_person_def distance_def sumSq_def sq_step_def elem_def nsub_def
  Float32Array_from_def fround_zero toDouble_zero threshold_value

text \<open>
  C1, as the code has it. A record replaces the best one so far exactly when its
  distance, as the loop computes it in rounded arithmetic, is below the threshold (the
  double nearest to 0.6) and below the best distance so far. No name is returned exactly
  when no record is below the threshold (so also for an empty list). A returned name is
  that of the lowest-index record among the nearest ones below the threshold. When some
  record's descriptor equals the query and every component of it is finite as a 32-bit
  float, the name returned is that of the first record at distance 0, at or before that
  record: it is that record's own name when no earlier record is at distance 0.
\<close>

theorem recognize_first_nearest:
  "threshold = Num (5404319552844595 / 9007199254740992) \<and>
   consider_person (Float32Array_from q) p (best, nm)
     = (if nlt (dist q p) threshold \<and> nlt (dist q p) best
        then (dist q p, Some (name p)) else (best, nm)) \<and>
   (recognize (Some q) known = None
      \<longleftrightarrow> (\<forall>r\<in>set known. \<not> nlt (dist q r) threshold)) \<and>
   (\<forall>n. recognize (Some q) known = Some n
      \<longrightarrow> (\<exists>i. chosen q known i \<and> n = name (known ! i))) \<and>
   (\<forall>i<length known.
      descriptor (known ! i) = q \<and> list_all isFinite (Float32Array_from q) \<longrightarrow>
      (\<exists>k\<le>i. recognize (Some q) known = Some (name (known ! k)) \<and>
         dist q (known ! k) = Num 0 \<and>
         (\<forall>j<k. dist q (known ! j) \<noteq> Num 0)))"
proof (intro conjI)
  show "threshold = Num (5404319552844595 / 9007199254740992)" by (rule threshold_value)
next
  show "consider_person (Float32Array_from q) p (best, nm)
     = (if nlt (dist q p) threshold \<and> nlt (dist q p) best
        then (dist q p, Some (name p)) else (best, nm))"
    by (simp add: consider_person_dist)
next
  show "recognize (Some q) known = None
      \<longleftrightarrow> (\<forall>r\<in>set known. \<not> nlt (dist q r) threshold)"
  proof
    assume "recognize (Some q) known = None"
    then show "\<forall>r\<in>set known. \<not> nlt (dist q r) threshold"
      using scan_char [of q known] by (simp add: recognize_scan)
  next
    assume none: "\<forall>r\<in>set known. \<not> nlt (dist q r) threshold"
    show "recognize (Some q) known = None"
    proof (cases "snd (scan q known)")
      case None
      then show ?thesis by (simp add: recognize_scan)
    next
      case (Some x)
      with scan_char [of q known] obtain i where "chosen q known i" by auto
      then have "known ! i \<in> set known" "nlt (dist q (known ! i)) threshold"
        by (simp_all add: chosen_def)
      with none show ?thesis by blast
    qed
  qed
next
  show "\<forall>n. recognize (Some q) known = Some n
      \<longrightarrow> (\<exists>i. chosen q known i \<and> n = name (known ! i))"
    using scan_char [of q known] by (auto simp: recognize_scan)
next
  show "\<forall>i<length known.
      descriptor (known ! i) = q \<and> list_all isFinite (Float32Array_from q) \<longrightarrow>
      (\<exists>k\<le>i. recognize (Some q) known = Some (name (known ! k)) \<and>
         dist q (known ! k) = Num 0 \<and>
         (\<forall>j<k. dist q (known ! j) \<noteq> Num 0))"
    using exact_first by blast
qed

theorem recognize_first_nearest_witness:
  "recognize (Some [0]) [\<lparr>name = ascii ''A'', descriptor = [0]\<rparr>,
                          \<lparr>name = ascii ''B'', descriptor = [0]\<rparr>] = Some (ascii ''A'')"
proof -
  let ?known = "[\<lparr>name = ascii ''A'', descriptor = [0::real]\<rparr>, \<lparr>name = ascii ''B'', descriptor = [0]\<rparr>]"
  from recognize_first_nearest [of "[0]" _ _ _ ?known]
  have "\<forall>i<length ?known.
      descriptor (?known ! i) = [0] \<and> list_all isFinite (Float32Array_from [0]) \<longrightarrow>
      (\<exists>k\<le>i. recognize (Some [0]) ?known = Some (name (?known ! k)))"
    by blast
  then have "0 < length ?known \<longrightarrow>
      descriptor (?known ! 0) = [0] \<and> list_all isFinite (Float32Array_from [0]) \<longrightarrow>
      (\<exists>k\<le>0. recognize (Some [0]) ?known = Some (name (?known ! k)))"
    by blast
  then show ?thesis by (simp add: Float32Array_from_def fround_zero)
qed

text \<open>
  C1 as stated fails for a record that comes after another record at distance 0: of two
  records with the descriptor of the query, the second one's name is not returned. It
  also fails for a descriptor with a component beyond the binary32 range, which is at
  distance NaN from itself.
\<close>

theorem exact_match_later_record_counterexample:
  "descriptor \<lparr>name = ascii ''B'', descriptor = [0]\<rparr> = [0] \<and>
   recognize (Some [0]) [\<lparr>name = ascii ''A'', descriptor = [0]\<rparr>,
                          \<lparr>name = ascii ''B'', descriptor = [0]\<rparr>]
     \<noteq> Some (name \<lparr>name = ascii ''B'', descriptor = [0]\<rparr>) \<and>
   recognize (Some [10 ^ 39]) [\<lparr>name = ascii ''A'', descriptor = [10 ^ 39]\<rparr>] = None"
proof -
  have "recognize (Some [0]) [\<lparr>name = ascii ''A'', descriptor = [0]\<rparr>,
                               \<lparr>name = ascii ''B'', descriptor = [0]\<rparr>]
          \<noteq> Some (name \<lparr>name = ascii ''B'', descriptor = [0]\<rparr>)"
    by (simp add: matcher_defs ascii_def)
  then show ?thesis using exact_match_overflow by simp
qed

text \<open>
  C3, as the code has it. No comparison raises an error. A record whose descriptor is
  longer than the query has distance NaN, is never accepted, and the result is the same
  as without it. A record whose descriptor is not longer than the query is compared with
  the query cut to the record's length, and is a candidate like any other.
\<close>

theorem mismatch_never_raises:
  "(length q < length (descriptor r) \<longrightarrow>
      dist q r = NaN \<and>
      recognize (Some q) (xs @ r # ys) = recognize (Some q) (xs @ ys)) \<and>
   (length (descriptor r) \<le> length q \<longrightarrow>
      dist q r = dist (take (length (descriptor r)) q) r \<and>
      consider_person (Float32Array_from q) r bn
        = consider_person (Float32Array_from (take (length (descriptor r)) q)) r bn)"
  using recognize_skips_longer [of q r xs ys] dist_query_short [of q r]
  by (simp add: dist_truncates consider_person_truncates)

theorem mismatch_never_raises_witness:
  "recognize (Some [0]) [\<lparr>name = ascii ''A'', descriptor = [0, 0]\<rparr>,
                          \<lparr>name = ascii ''B'', descriptor = [0]\<rparr>] = Some (ascii ''B'') \<and>
   dist [0, 5] \<lparr>name = ascii ''B'', descriptor = [0]\<rparr>
     = dist [0] \<lparr>name = ascii ''B'', descriptor = [0]\<rparr>"
  using mismatch_never_raises [of "[0]" "\<lparr>name = ascii ''A'', descriptor = [0, 0]\<rparr>" "[]"
      "[\<lparr>name = ascii ''B'', descriptor = [0]\<rparr>]"]
    mismatch_never_raises [of "[0, 5]" "\<lparr>name = ascii ''B'', descriptor = [0]\<rparr>"]
  by (simp add: matcher_defs)

text \<open>
  C3 as stated fails for a record shorter than the query: the query is cut to the
  record's length and the record is accepted, where skipping it would return no name.
\<close>

theorem shorter_reference_counterexample:
  "length (descriptor \<lparr>name = ascii ''A'', descriptor = [0]\<rparr>) \<noteq> length [0, 5 :: real] \<and>
   recognize (Some [0, 5]) [\<lparr>name = ascii ''A'', descriptor = [0]\<rparr>] = Some (ascii ''A'') \<and>
   recognize (Some [0, 5]) [] = None"
  by (simp add: matcher_defs)

subsection \<open>The emotion history\<close>

lemma noAdjacentEqual_snoc:
  "noAdjacentEqual (xs @ [x]) \<longleftrightarrow> noAdjacentEqual xs \<and> (xs \<noteq> [] \<longrightarrow> last xs \<noteq> x)"
  by (induction xs rule: noAdjacentEqual.induct) auto

lemma observe_same: "e = lastEmotion (mem s) \<Longrightarrow> observe e s = s"
  by (simp add: observe_def)

lemma observe_absent: "\<not> truthy e \<Longrightarrow> observe e s = s"
  by (simp add: observe_def)

lemma observe_new:
  "truthy e \<Longrightarrow> e \<noteq> lastEmotion (mem s) \<Longrightarrow>
   observe e s
     = s\<lparr>mem := (mem s)\<lparr>lastEmotion := e,
                          emotionHistory := emotionHistory (mem s) @
                            [\<lparr>etime = clock s (ticks s), emotion = the e\<rparr>]\<rparr>,
         ticks := Suc (ticks s)\<rparr>"
  by (simp add: observe_def Date_now_def)

lemma observe_rle_inv: "rle_inv (mem s) \<Longrightarrow> rle_inv (mem (observe e s))"
proof (cases "truthy e \<and> e \<noteq> lastEmotion (mem s)")
  case False
  assume "rle_inv (mem s)"
  with False show ?thesis by (auto simp: observe_same observe_absent)
next
  case True
  assume inv: "rle_inv (mem s)"
  from True obtain x where e: "e = Some x" by (cases e) (auto simp: truthy_def)
  show ?thesis
    using inv True e
    by (auto simp: observe_new rle_inv_def noAdjacentEqual_snoc last_map)
qed

lemma face_data_emotion:
  "lastEmotion (mem (face_data d e s)) = lastEmotion (mem (observe e s)) \<and>
   emotionHistory (mem (face_data d e s)) = emotionHistory (mem (observe e s)) \<and>
   clock (face_data d e s) = clock (observe e s) \<and>
   ticks (observe e s) \<le> ticks (face_data d e s)"
  by (simp add: face_data_def server_defs Let_def split: option.splits)

lemma face_data_rle_inv: "rle_inv (mem s) \<Longrightarrow> rle_inv (mem (face_data d e s))"
  using observe_rle_inv [of s e] face_data_emotion [of d e s] by (simp add: rle_inv_def)

lemma handleVoiceCommand_emotion:
  "lastEmotion (mem (handleVoiceCommand t s)) = lastEmotion (mem s) \<and>
   emotionHistory (mem (handleVoiceCommand t s)) = emotionHistory (mem s)"
  by (simp add: handleVoiceCommand_def remember_face_def server_defs split: option.splits)

lemma handle_rle_inv: "rle_inv (mem s) \<Longrightarrow> rle_inv (mem (handle ev s))"
proof (cases ev)
  case (FaceData d e)
  assume "rle_inv (mem s)"
  with FaceData show ?thesis by (simp add: face_data_rle_inv)
next
  case (SmartHome device action)
  assume "rle_inv (mem s)"
  with SmartHome show ?thesis by (simp add: smart_home_def rle_inv_def server_defs)
next
  case (LidarData fr)
  assume "rle_inv (mem s)"
  with LidarData show ?thesis by (simp add: lidar_data_def rle_inv_def server_defs)
next
  case (TranscriptReceived is_final t)
  assume "rle_inv (mem s)"
  with TranscriptReceived show ?thesis
    by (simp add: transcriptReceived_def rle_inv_def handleVoiceCommand_emotion server_defs)
qed

lemma fold_handle_rle_inv: "rle_inv (mem s) \<Longrightarrow> rle_inv (mem (fold handle evs s))"
  by (induction evs arbitrary: s) (simp_all add: handle_rle_inv)

lemma face_data_repeat:
  assumes "lastEmotion (mem s) = Some x"
  shows "lastEmotion (mem (face_data d (Some x) s)) = Some x \<and>
         emotionHistory (mem (face_data d (Some x) s)) = emotionHistory (mem s) \<and>
         clock (face_data d (Some x) s) = clock s \<and>
         ticks s \<le> ticks (face_data d (Some x) s)"
  using assms face_data_emotion [of d "Some x" s] by (simp add: observe_same)

lemma face_data_change:
  assumes "x \<noteq> []" and "lastEmotion (mem s) \<noteq> Some x"
  shows "lastEmotion (mem (face_data d (Some x) s)) = Some x \<and>
         emotionHistory (mem (face_data d (Some x) s))
           = emotionHistory (mem s) @ [\<lparr>etime = clock s (ticks s), emotion = x\<rparr>] \<and>
         clock (face_data d (Some x) s) = clock s \<and>
         ticks s < ticks (face_data d (Some x) s)"
proof -
  have "truthy (Some x)" using assms(1) by (simp add: truthy_def)
  moreover have "Some x \<noteq> lastEmotion (mem s)" using assms(2) by auto
  ultimately show ?thesis
    using face_data_emotion [of d "Some x" s] by (simp add: observe_new)
qed

lemma six_observations:
  assumes a: "a \<noteq> []" and b: "b \<noteq> []" and ab: "a \<noteq> b"
    and start: "lastEmotion (mem s) \<noteq> Some a" and mono: "mono (clock s)"
  shows "\<exists>t1 t2 t3.
           emotionHistory (mem (fold handle
               [FaceData d1 (Some a), FaceData d2 (Some a), FaceData d3 (Some b),
                FaceData d4 (Some b), FaceData d5 (Some b), FaceData d6 (Some a)] s))
             = emotionHistory (mem s) @
                 [\<lparr>etime = t1, emotion = a\<rparr>, \<lparr>etime = t2, emotion = b\<rparr>,
                  \<lparr>etime = t3, emotion = a\<rparr>] \<and>
           t1 \<le> t2 \<and> t2 \<le> t3"
proof -
  define s1 where "s1 = face_data d1 (Some a) s"
  define s2 where "s2 = face_data d2 (Some a) s1"
  define s3 where "s3 = face_data d3 (Some b) s2"
  define s4 where "s4 = face_data d4 (Some b) s3"
  define s5 where "s5 = face_data d5 (Some b) s4"
  define s6 where "s6 = face_data d6 (Some a) s5"
  have 1: "lastEmotion (mem s1) = Some a"
      "emotionHistory (mem s1) = emotionHistory (mem s) @ [\<lparr>etime = clock s (ticks s), emotion = a\<rparr>]"
      "clock s1 = clock s" "ticks s < ticks s1"
    unfolding s1_def using face_data_change [OF a start, of d1] by simp_all
  have 2: "lastEmotion (mem s2) = Some a" "emotionHistory (mem s2) = emotionHistory (mem s1)"
      "clock s2 = clock s1" "ticks s1 \<le> ticks s2"
    unfolding s2_def using face_data_repeat [OF 1(1), of d2] by simp_all
  have "lastEmotion (mem s2) \<noteq> Some b" using 2(1) ab by simp
  from face_data_change [OF b this, of d3]
  have 3: "lastEmotion (mem s3) = Some b"
      "emotionHistory (mem s3) = emotionHistory (mem s2) @ [\<lparr>etime = clock s2 (ticks s2), emotion = b\<rparr>]"
      "clock s3 = clock s2" "ticks s2 < ticks s3"
    unfolding s3_def by simp_all
  have 4: "lastEmotion (mem s4) = Some b" "emotionHistory (mem s4) = emotionHistory (mem s3)"
      "clock s4 = clock s3" "ticks s3 \<le> ticks s4"
    unfolding s4_def using face_data_repeat [OF 3(1), of d4] by simp_all
  have 5: "lastEmotion (mem s5) = Some b" "emotionHistory (mem s5) = emotionHistory (mem s4)"
      "clock s5 = clock s4" "ticks s4 \<le> ticks s5"
    unfolding s5_def using face_data_repeat [OF 4(1), of d5] by simp_all
  have "lastEmotion (mem s5) \<noteq> Some a" using 5(1) ab by simp
  from face_data_change [OF a this, of d6]
  have 6: "emotionHistory (mem s6) = emotionHistory (mem s5) @ [\<lparr>etime = clock s5 (ticks s5), emotion = a\<rparr>]"
    unfolding s6_def by simp_all
  have hist: "emotionHistory (mem s6) = emotionHistory (mem s) @
      [\<lparr>etime = clock s (ticks s), emotion = a\<rparr>, \<lparr>etime = clock s (ticks s2), emotion = b\<rparr>,
       \<lparr>etime = clock s (ticks s5), emotion = a\<rparr>]"
    using 1 2 3 4 5 6 by simp
  have "ticks s \<le> ticks s2" "ticks s2 \<le> ticks s5" using 1 2 3 4 5 by simp_all
  then have "clock s (ticks s) \<le> clock s (ticks s2)" "clock s (ticks s2) \<le> clock s (ticks s5)"
    using mono by (simp_all add: monoD)
  moreover have "fold handle
               [FaceData d1 (Some a), FaceData d2 (Some a), FaceData d3 (Some b),
                FaceData d4 (Some b), FaceData d5 (Some b), FaceData d6 (Some a)] s = s6"
    by (simp add: s1_def s2_def s3_def s4_def s5_def s6_def)
  ultimately show ?thesis using hist by blast
qed

lemma mono_wallClock: "mono wallClock"
  by (simp add: mono_def wallClock_def)

text \<open>
  C2. The history starts without two equal neighbours and keeps that through every
  sequence of events of any kind. A face-data event whose emotion equals
  \<open>lastEmotion\<close> leaves \<open>lastEmotion\<close> and the history as they are; one whose
  emotion is present (a non-empty label, which is what the handler's test lets through)
  and differs sets \<open>lastEmotion\<close> and appends exactly one entry. For two different
  labels \<open>a\<close> and \<open>b\<close>, the observations a, a, b, b, b, a on a memory whose last
  emotion is not \<open>a\<close> append exactly three entries a, b, a, their timestamps in
  non-decreasing order when the clock does not run backwards.
\<close>

theorem emotionHistory_run_length:
  "rle_inv initialMemory \<and>
   (rle_inv (mem s) \<longrightarrow>
      rle_inv (mem (fold handle evs s)) \<and>
      noAdjacentEqual (map emotion (emotionHistory (mem (fold handle evs s))))) \<and>
   (e = lastEmotion (mem s) \<longrightarrow>
      lastEmotion (mem (face_data d e s)) = lastEmotion (mem s) \<and>
      emotionHistory (mem (face_data d e s)) = emotionHistory (mem s)) \<and>
   (truthy e \<and> e \<noteq> lastEmotion (mem s) \<longrightarrow>
      lastEmotion (mem (face_data d e s)) = e \<and>
      emotionHistory (mem (face_data d e s))
        = emotionHistory (mem s) @ [\<lparr>etime = clock s (ticks s), emotion = the e\<rparr>]) \<and>
   (a \<noteq> [] \<and> b \<noteq> [] \<and> a \<noteq> b \<and> lastEmotion (mem s) \<noteq> Some a \<and> mono (clock s) \<longrightarrow>
      (\<exists>t1 t2 t3.
         emotionHistory (mem (fold handle
             [FaceData d1 (Some a), FaceData d2 (Some a), FaceData d3 (Some b),
              FaceData d4 (Some b), FaceData d5 (Some b), FaceData d6 (Some a)] s))
           = emotionHistory (mem s) @
               [\<lparr>etime = t1, emotion = a\<rparr>, \<lparr>etime = t2, emotion = b\<rparr>,
                \<lparr>etime = t3, emotion = a\<rparr>] \<and>
         t1 \<le> t2 \<and> t2 \<le> t3))"
proof (intro conjI impI)
  show "rle_inv initialMemory" by (simp add: rle_inv_def initialMemory_def)
next
  assume "rle_inv (mem s)"
  then show "rle_inv (mem (fold handle evs s))" by (rule fold_handle_rle_inv)
next
  assume "rle_inv (mem s)"
  then have "rle_inv (mem (fold handle evs s))" by (rule fold_handle_rle_inv)
  then show "noAdjacentEqual (map emotion (emotionHistory (mem (fold handle evs s))))"
    by (simp add: rle_inv_def)
next
  assume "e = lastEmotion (mem s)"
  then show "lastEmotion (mem (face_data d e s)) = lastEmotion (mem s)"
    and "emotionHistory (mem (face_data d e s)) = emotionHistory (mem s)"
    using face_data_emotion [of d e s] by (simp_all add: observe_same)
next
  assume "truthy e \<and> e \<noteq> lastEmotion (mem s)"
  then show "lastEmotion (mem (face_data d e s)) = e"
    and "emotionHistory (mem (face_data d e s))
        = emotionHistory (mem s) @ [\<lparr>etime = clock s (ticks s), emotion = the e\<rparr>]"
    using face_data_emotion [of d e s] by (simp_all add: observe_new)
next
  assume "a \<noteq> [] \<and> b \<noteq> [] \<and> a \<noteq> b \<and> lastEmotion (mem s) \<noteq> Some a \<and> mono (clock s)"
  then show "\<exists>t1 t2 t3.
         emotionHistory (mem (fold handle
             [FaceData d1 (Some a), FaceData d2 (Some a), FaceData d3 (Some b),
              FaceData d4 (Some b), FaceData d5 (Some b), FaceData d6 (Some a)] s))
           = emotionHistory (mem s) @
               [\<lparr>etime = t1, emotion = a\<rparr>, \<lparr>etime = t2, emotion = b\<rparr>,
                \<lparr>etime = t3, emotion = a\<rparr>] \<and>
         t1 \<le> t2 \<and> t2 \<le> t3"
    using six_observations by blast
qed

theorem emotionHistory_run_length_witness:
  "map emotion (emotionHistory (mem (fold handle
       [FaceData None (Some (ascii ''sad'')), FaceData None (Some (ascii ''sad'')),
        FaceData None (Some (ascii ''happy'')), FaceData None (Some (ascii ''happy'')),
        FaceData None (Some (ascii ''happy'')), FaceData None (Some (ascii ''sad''))] server0)))
     = [ascii ''sad'', ascii ''happy'', ascii ''sad'']"
proof -
  have h: "ascii ''sad'' \<noteq> [] \<and> ascii ''happy'' \<noteq> [] \<and> ascii ''sad'' \<noteq> ascii ''happy'' \<and>
           lastEmotion (mem server0) \<noteq> Some (ascii ''sad'') \<and> mono (clock server0)"
    using mono_wallClock by (simp add: ascii_def fixture_defs)
  have "rle_inv (mem server0)" by (simp add: rle_inv_def fixture_defs)
  with h emotionHistory_run_length [of server0 _ _ _ "ascii ''sad''" "ascii ''happy''" None None None None None None]
  obtain t1 t2 t3 where "emotionHistory (mem (fold handle
       [FaceData None (Some (ascii ''sad'')), FaceData None (Some (ascii ''sad'')),
        FaceData None (Some (ascii ''happy'')), FaceData None (Some (ascii ''happy'')),
        FaceData None (Some (ascii ''happy'')), FaceData None (Some (ascii ''sad''))] server0))
     = emotionHistory (mem server0) @
               [\<lparr>etime = t1, emotion = ascii ''sad''\<rparr>, \<lparr>etime = t2, emotion = ascii ''happy''\<rparr>,
                \<lparr>etime = t3, emotion = ascii ''sad''\<rparr>]"
    by blast
  then show ?thesis by (simp add: fixture_defs)
qed

subsection \<open>Voice commands\<close>

lemmas phrase_defs = phrase_light_on_def phrase_light_off_def phrase_remember_def re_as_def
lemmas string_defs = toLowerCase_def lower_unit_def trim_def whiteSpace_def lineTerminator_def

lemma on_branch: "includes_str (toLowerCase phrase_light_on) phrase_light_on"
  by (simp add: phrase_defs string_defs)

lemma off_branch:
  "\<not> includes_str (toLowerCase phrase_light_off) phrase_light_on"
  "includes_str (toLowerCase phrase_light_off) phrase_light_off"
  by (simp_all add: phrase_defs string_defs)

lemma Anna_branch:
  "\<not> includes_str (toLowerCase cmd_remember_Anna) phrase_light_on"
  "\<not> includes_str (toLowerCase cmd_remember_Anna) phrase_light_off"
  "includes_str (toLowerCase cmd_remember_Anna) phrase_remember"
  by (simp_all add: phrase_defs string_defs cmd_remember_Anna_def)

lemma Anna_name: "extract_name (toLowerCase cmd_remember_Anna) = Some name_anna"
  by (simp add: extract_name_def match_here_def dotPlusEnd_def phrase_defs string_defs
      cmd_remember_Anna_def name_anna_def)

lemma bare_branch:
  "\<not> includes_str (toLowerCase phrase_remember) phrase_light_on"
  "\<not> includes_str (toLowerCase phrase_remember) phrase_light_off"
  "includes_str (toLowerCase phrase_remember) phrase_remember"
  by (simp_all add: phrase_defs string_defs)

lemma bare_name: "extract_name (toLowerCase phrase_remember) = None"
  by (simp add: extract_name_def match_here_def dotPlusEnd_def phrase_defs string_defs)

lemma hello_branch:
  "\<not> includes_str (toLowerCase (ascii ''hello'')) phrase_light_on"
  "\<not> includes_str (toLowerCase (ascii ''hello'')) phrase_light_off"
  "\<not> includes_str (toLowerCase (ascii ''hello'')) phrase_remember"
  by (simp_all add: phrase_defs string_defs ascii_def)

lemma reply_not_confirmation:
  "reply_light_on \<noteq> log_light_on \<and> reply_light_off \<noteq> log_light_off"
  by (simp add: reply_light_on_def log_light_on_def reply_light_off_def log_light_off_def)

text \<open>
  C4. The transcript of the light-on phrase sets \<open>state.light\<close> to true, sends
  exactly one spoken reply, and appends two assistant entries to the conversation log:
  the reply, logged by \<open>speakText\<close>, and then exactly one confirmation, a separate
  entry with a text of its own. The light-off phrase afterwards sets \<open>state.light\<close>
  to false in the same way.
\<close>

theorem light_commands:
  "reply_light_on \<noteq> log_light_on \<and> reply_light_off \<noteq> log_light_off \<and>
   light (state (mem (handleVoiceCommand phrase_light_on s))) \<and>
   conversationLog (mem (handleVoiceCommand phrase_light_on s))
     = conversationLog (mem s) @
       [\<lparr>time = clock s (ticks s), sender = Assistant, content = reply_light_on\<rparr>,
        \<lparr>time = clock s (Suc (ticks s)), sender = Assistant, content = log_light_on\<rparr>] \<and>
   added s (handleVoiceCommand phrase_light_on s)
     = [Tts reply_light_on, LightState True,
        SaveMemory (mem (handleVoiceCommand phrase_light_on s))] \<and>
   filter isTts (added s (handleVoiceCommand phrase_light_on s)) = [Tts reply_light_on] \<and>
   \<not> light (state (mem (handleVoiceCommand phrase_light_off (handleVoiceCommand phrase_light_on s)))) \<and>
   conversationLog (mem (handleVoiceCommand phrase_light_off (handleVoiceCommand phrase_light_on s)))
     = conversationLog (mem (handleVoiceCommand phrase_light_on s)) @
       [\<lparr>time = clock s (Suc (Suc (ticks s))), sender = Assistant, content = reply_light_off\<rparr>,
        \<lparr>time = clock s (Suc (Suc (Suc (ticks s)))), sender = Assistant, content = log_light_off\<rparr>] \<and>
   added (handleVoiceCommand phrase_light_on s)
         (handleVoiceCommand phrase_light_off (handleVoiceCommand phrase_light_on s))
     = [Tts reply_light_off, LightState False,
        SaveMemory (mem (handleVoiceCommand phrase_light_off (handleVoiceCommand phrase_light_on s)))] \<and>
   filter isTts (added (handleVoiceCommand phrase_light_on s)
                       (handleVoiceCommand phrase_light_off (handleVoiceCommand phrase_light_on s)))
     = [Tts reply_light_off]"
  using reply_not_confirmation
  by (simp add: handleVoiceCommand_def on_branch off_branch server_defs added_def Let_def)

theorem light_commands_witness:
  "light (state (mem (handleVoiceCommand phrase_light_on server0))) \<and>
   \<not> light (state (mem (handleVoiceCommand phrase_light_off
                          (handleVoiceCommand phrase_light_on server0)))) \<and>
   map sender (conversationLog (mem (handleVoiceCommand phrase_light_on server0)))
     = [Assistant, Assistant]"
  using light_commands [of server0] by (simp add: fixture_defs)

text \<open>
  C5, as the code has it. With a last descriptor \<open>V\<close>, the transcript appends exactly
  one face record, whose descriptor is \<open>V\<close> and whose name is taken from the
  lower-cased text, so it is the name in lower case. In the remember branch, when no name
  is extracted, or a name is extracted and no descriptor is set, no face is appended, one
  clarifying reply is spoken, and the conversation log grows by exactly one entry, the
  reply logged by \<open>speakText\<close>.
\<close>

theorem remember_face_command:
  "(lastFaceDescriptor (mem s) = Some V \<longrightarrow>
      mem (handleVoiceCommand cmd_remember_Anna s)
        = (mem s)\<lparr>faces := faces (mem s) @ [\<lparr>name = name_anna, descriptor = V\<rparr>],
                  conversationLog := conversationLog (mem s) @
                    [\<lparr>time = clock s (ticks s), sender = Assistant,
                      content = reply_remembered_pre @ name_anna @ ascii ''.''\<rparr>,
                     \<lparr>time = clock s (Suc (ticks s)), sender = System,
                      content = ascii ''Face \"'' @ name_anna @ ascii ''\" remembered''\<rparr>]\<rparr>) \<and>
   (\<not> includes_str (toLowerCase t) phrase_light_on \<and>
    \<not> includes_str (toLowerCase t) phrase_light_off \<and>
    includes_str (toLowerCase t) phrase_remember \<and>
    \<not> truthy (extract_name (toLowerCase t)) \<longrightarrow>
      mem (handleVoiceCommand t s)
        = (mem s)\<lparr>conversationLog := conversationLog (mem s) @
            [\<lparr>time = clock s (ticks s), sender = Assistant, content = reply_ask_name\<rparr>]\<rparr> \<and>
      added s (handleVoiceCommand t s)
        = [Tts reply_ask_name, SaveMemory (mem (handleVoiceCommand t s))]) \<and>
   (\<not> includes_str (toLowerCase t) phrase_light_on \<and>
    \<not> includes_str (toLowerCase t) phrase_light_off \<and>
    includes_str (toLowerCase t) phrase_remember \<and>
    truthy (extract_name (toLowerCase t)) \<and> lastFaceDescriptor (mem s) = None \<longrightarrow>
      mem (handleVoiceCommand t s)
        = (mem s)\<lparr>conversationLog := conversationLog (mem s) @
            [\<lparr>time = clock s (ticks s), sender = Assistant, content = reply_no_face\<rparr>]\<rparr> \<and>
      added s (handleVoiceCommand t s)
        = [Tts reply_no_face, SaveMemory (mem (handleVoiceCommand t s))])"
  by (simp add: handleVoiceCommand_def remember_face_def Anna_branch Anna_name truthy_def
      name_anna_def server_defs added_def)

theorem remember_face_command_witness:
  "faces (mem (handleVoiceCommand cmd_remember_Anna server1))
     = [\<lparr>name = name_anna, descriptor = [1]\<rparr>] \<and>
   added server0 (handleVoiceCommand phrase_remember server0)
     = [Tts reply_ask_name, SaveMemory (mem (handleVoiceCommand phrase_remember server0))] \<and>
   added server0 (handleVoiceCommand cmd_remember_Anna server0)
     = [Tts reply_no_face, SaveMemory (mem (handleVoiceCommand cmd_remember_Anna server0))]"
  using remember_face_command [of server1 "[1]" phrase_remember]
    remember_face_command [of server0 "[1]" phrase_remember]
    remember_face_command [of server0 "[1]" cmd_remember_Anna]
  by (simp add: fixture_defs bare_branch bare_name Anna_branch Anna_name truthy_def name_anna_def)

text \<open>
  C5 as stated fails twice: the stored name is not the capitalised one, and the two
  cases without a stored face do append an entry to the conversation log.
\<close>

theorem remember_face_command_counterexample:
  "faces (mem (handleVoiceCommand cmd_remember_Anna server1))
     \<noteq> faces (mem server1) @ [\<lparr>name = name_Anna, descriptor = [1]\<rparr>] \<and>
   conversationLog (mem (handleVoiceCommand cmd_remember_Anna server0))
     \<noteq> conversationLog (mem server0) \<and>
   conversationLog (mem (handleVoiceCommand phrase_remember server0))
     \<noteq> conversationLog (mem server0)"
  by (simp add: handleVoiceCommand_def remember_face_def Anna_branch Anna_name bare_branch
      bare_name truthy_def name_anna_def name_Anna_def server_defs fixture_defs)

text \<open>
  C6, as the code has it. A transcript that matches no rule changes no field of the
  memory but the conversation log, to which it appends exactly two assistant entries: the
  spoken reply, logged by \<open>speakText\<close>, and the branch's own entry.
\<close>

theorem unrecognized_transcript:
  assumes "\<not> includes_str (toLowerCase t) phrase_light_on"
    and "\<not> includes_str (toLowerCase t) phrase_light_off"
    and "\<not> includes_str (toLowerCase t) phrase_remember"
  shows "faces (mem (handleVoiceCommand t s)) = faces (mem s) \<and>
         state (mem (handleVoiceCommand t s)) = state (mem s) \<and>
         emotionHistory (mem (handleVoiceCommand t s)) = emotionHistory (mem s) \<and>
         mem (handleVoiceCommand t s)
           = (mem s)\<lparr>conversationLog := conversationLog (mem s) @
               [\<lparr>time = clock s (ticks s), sender = Assistant, content = reply_not_understood\<rparr>,
                \<lparr>time = clock s (Suc (ticks s)), sender = Assistant, content = log_not_understood\<rparr>]\<rparr> \<and>
         added s (handleVoiceCommand t s)
           = [Tts reply_not_understood, SaveMemory (mem (handleVoiceCommand t s))]"
  using assms by (simp add: handleVoiceCommand_def server_defs added_def)

theorem unrecognized_transcript_witness:
  "conversationLog (mem (handleVoiceCommand (ascii ''hello'') server0))
     = [\<lparr>time = 1000, sender = Assistant, content = reply_not_understood\<rparr>,
        \<lparr>time = 1001, sender = Assistant, content = log_not_understood\<rparr>] \<and>
   faces (mem (handleVoiceCommand (ascii ''hello'') server0)) = []"
  using unrecognized_transcript [OF hello_branch, of server0] by (simp add: fixture_defs)

text \<open>
  C6 as stated fails: a transcript that matches no rule appends two assistant entries,
  not one.
\<close>

theorem unrecognized_transcript_counterexample:
  "\<not> includes_str (toLowerCase (ascii ''hello'')) phrase_light_on \<and>
   \<not> includes_str (toLowerCase (ascii ''hello'')) phrase_light_off \<and>
   \<not> includes_str (toLowerCase (ascii ''hello'')) phrase_remember \<and>
   conversationLog (mem server0) = [] \<and>
   map sender (conversationLog (mem (handleVoiceCommand (ascii ''hello'') server0)))
     = [Assistant, Assistant]"
  by (simp add: handleVoiceCommand_def hello_branch server_defs fixture_defs)

text \<open>
  C7, as the code has it. For every transcript the command handler ends with a write of
  the memory as it then is. It writes once, except in the branch that stores a face,
  where it writes twice; the handler of a final, non-empty transcript writes once more
  after it, and its last effect is a write of the final memory.
\<close>

theorem flush_counts:
  "flushes s (handleVoiceCommand t s) = (if remembers t s then 2 else 1) \<and>
   last (effects (handleVoiceCommand t s)) = SaveMemory (mem (handleVoiceCommand t s)) \<and>
   (t \<noteq> [] \<longrightarrow>
      flushes s (transcriptReceived True t s) = (if remembers t s then 3 else 2) \<and>
      last (effects (transcriptReceived True t s)) = SaveMemory (mem (transcriptReceived True t s)))"
  by (simp add: transcriptReceived_def handleVoiceCommand_def remember_face_def remembers_def
      server_defs added_def flushes_def split: option.splits)

theorem flush_counts_witness:
  "flushes server1 (handleVoiceCommand cmd_remember_Anna server1) = 2 \<and>
   flushes server0 (handleVoiceCommand cmd_remember_Anna server0) = 1 \<and>
   flushes server0 (transcriptReceived True phrase_light_on server0) = 2"
proof -
  have r1: "remembers cmd_remember_Anna server1"
    by (simp add: remembers_def Anna_branch Anna_name truthy_def name_anna_def fixture_defs)
  have r0: "\<not> remembers cmd_remember_Anna server0"
    by (simp add: remembers_def fixture_defs)
  have r2: "\<not> remembers phrase_light_on server0"
    by (simp add: remembers_def on_branch)
  have ne: "phrase_light_on \<noteq> []"
    by (simp add: phrase_light_on_def)
  show ?thesis
    using flush_counts [of server1 cmd_remember_Anna] flush_counts [of server0 cmd_remember_Anna]
      flush_counts [of server0 phrase_light_on] r1 r0 r2 ne
    by simp
qed

text \<open>
  C7 as stated fails: handling one unrecognised transcript writes the document twice,
  and the command handler alone writes twice when it stores a face.
\<close>

theorem flush_counts_counterexample:
  "flushes server0 (transcriptReceived True (ascii ''hello'') server0) = 2 \<and>
   flushes server1 (handleVoiceCommand cmd_remember_Anna server1) = 2"
  by (simp add: transcriptReceived_def handleVoiceCommand_def remember_face_def hello_branch
      Anna_branch Anna_name truthy_def name_anna_def server_defs fixture_defs flushes_def
      added_def ascii_def)

subsection \<open>Which events write the document\<close>

text \<open>
  C8, as the code has it. A smart-home event for the light and a final, non-empty
  transcript end with a write of the memory as it then is; a smart-home event for another
  device and a transcript that is not final or is empty change nothing. A face-data event
  and a LiDAR event never write the document, whatever they change in the memory.
\<close>

theorem flush_after_mutation:
  "last (effects (handle (SmartHome (ascii ''light'') action) s))
     = SaveMemory (mem (handle (SmartHome (ascii ''light'') action) s)) \<and>
   (device \<noteq> ascii ''light'' \<longrightarrow> handle (SmartHome device action) s = s) \<and>
   (t \<noteq> [] \<longrightarrow>
      last (effects (handle (TranscriptReceived True t) s))
        = SaveMemory (mem (handle (TranscriptReceived True t) s))) \<and>
   (\<not> (is_final \<and> t \<noteq> []) \<longrightarrow> handle (TranscriptReceived is_final t) s = s) \<and>
   flushes s (handle (FaceData d e) s) = 0 \<and>
   flushes s (handle (LidarData fr) s) = 0"
  by (auto simp: smart_home_def transcriptReceived_def face_data_def observe_def lidar_data_def
      server_defs flushes_def added_def Let_def split: option.splits)

theorem flush_after_mutation_witness:
  "last (effects (handle (SmartHome (ascii ''light'') (ascii ''on'')) server0))
     = SaveMemory (mem (handle (SmartHome (ascii ''light'') (ascii ''on'')) server0)) \<and>
   handle (SmartHome (ascii ''fan'') (ascii ''on'')) server0 = server0 \<and>
   last (effects (handle (TranscriptReceived True phrase_light_on) server0))
     = SaveMemory (mem (handle (TranscriptReceived True phrase_light_on) server0)) \<and>
   handle (TranscriptReceived False phrase_light_on) server0 = server0"
  using flush_after_mutation [of "ascii ''on''" server0 "ascii ''fan''" phrase_light_on False]
  by (simp add: ascii_def phrase_light_on_def)

text \<open>
  C8 as stated fails: a face-data event appends to the emotion history, and a LiDAR event
  stores its frame, without any write of the document in that step.
\<close>

theorem face_data_not_flushed_counterexample:
  "emotionHistory (mem server0) = [] \<and>
   emotionHistory (mem (handle (FaceData None (Some (ascii ''sad''))) server0))
     = [\<lparr>etime = 1000, emotion = ascii ''sad''\<rparr>] \<and>
   flushes server0 (handle (FaceData None (Some (ascii ''sad''))) server0) = 0 \<and>
   lastLidarFrame (mem server0) = None \<and>
   lastLidarFrame (mem (handle (LidarData [7]) server0)) = Some [7] \<and>
   flushes server0 (handle (LidarData [7]) server0) = 0"
  by (simp add: face_data_def observe_def lidar_data_def recognize_def truthy_def server_defs
      fixture_defs flushes_def added_def ascii_def)

end
